theory Spec2Isabelle
  imports Complex_Main
begin

section \<open>The Paci 2018 cell model (python/paci\_2018.py)\<close>

text \<open>
  The state vector \<open>y\<close> is a list of reals (the source receives a numpy array of
  float64): the arithmetic of the source is read over the real numbers, \<open>np.exp\<close> as
  \<open>exp\<close>, \<open>math.log\<close> as \<open>ln\<close> with its domain error written out, \<open>x ** n\<close> for an
  integral \<open>n\<close> as a power and for a fractional one as \<open>powr\<close>. Rounding, infinities and
  NaN of IEEE arithmetic are not represented.
\<close>

subsection \<open>Exceptions\<close>

datatype exn = ValueError | IndexError | StopIteration | ZeroDivisionError

text \<open>\<open>math.log\<close> raises ValueError ("math domain error") outside its domain.\<close>

definition py_log :: "real \<Rightarrow> exn + real" where
  "py_log x = (if 0 < x then Inr (ln x) else Inl ValueError)"

subsection \<open>Class attributes of PaciModel\<close>

definition vmax_up_millimolar_per_second :: real where
  "vmax_up_millimolar_per_second = 0.5113"

definition g_irel_max_millimolar_per_second :: real where
  "g_irel_max_millimolar_per_second = 62.5434"

definition ry_ra_1_micromolar :: real where
  "ry_ra_1_micromolar = 0.05354"

definition ry_ra_2_micromolar :: real where
  "ry_ra_2_micromolar = 0.0488"

definition ry_rahalf_micromolar :: real where
  "ry_rahalf_micromolar = 0.02427"

definition ry_rohalf_micromolar :: real where
  "ry_rohalf_micromolar = 0.01042"

definition ry_rchalf_micromolar :: real where
  "ry_rchalf_micromolar = 0.00144"

definition k_na_ca_a_per_f :: real where
  "k_na_ca_a_per_f = 3917.0463"

definition p_na_k_a_per_f :: real where
  "p_na_k_a_per_f = 2.6351"

definition k_up_millimolar :: real where
  "k_up_millimolar = 3.1928 / 10 ^ 4"

definition v_leak_per_second :: real where
  "v_leak_per_second = 4.7279 / 10 ^ 4"

definition alpha_in_i_na_ca :: real where
  "alpha_in_i_na_ca = 2.5371"

definition f_coulomb_per_mole :: real where
  "f_coulomb_per_mole = 96485.3415"

definition r_joule_per_mole_kelvin :: real where
  "r_joule_per_mole_kelvin = 8.314472"

definition t_kelvin :: real where
  "t_kelvin = 310.0"

definition v_sr_micrometer_cube :: real where
  "v_sr_micrometer_cube = 583.73"

definition vc_micrometer_cube :: real where
  "vc_micrometer_cube = 8800.0"

definition cm_farad :: real where
  "cm_farad = 9.87109 / 10 ^ 11"

definition nao_millimolar :: real where
  "nao_millimolar = 151.0"

definition ko_millimolar :: real where
  "ko_millimolar = 5.4"

definition cao_millimolar :: real where
  "cao_millimolar = 1.8"

definition ki_millimolar :: real where
  "ki_millimolar = 150.0"

definition t_drug_application :: real where
  "t_drug_application = 10000"

definition i_na_f_red_med :: real where
  "i_na_f_red_med = 1"

definition i_ca_l_red_med :: real where
  "i_ca_l_red_med = 1"

definition i_kr_red_med :: real where
  "i_kr_red_med = 1"

definition i_ks_red_med :: real where
  "i_ks_red_med = 1"

definition y_initial :: "real list" where
  "y_initial = [-0.0749228904740065, 0.0936532528714175, 3.79675694306440 / 10 ^ 5,
                0, 8.25220533963093 / 10 ^ 5, 0.741143500777858, 0.999983958619179,
                0.997742015033076, 0.266113517200784, 0.434907203275640,
                0.0314334976383401, 0.745356534740988, 0.0760523580322096,
                0.0995891726023512, 0.0249102482276486, 0.841714924246004,
                0.00558005376429710, 8.64821066193476, 0.00225383437957339,
                0.0811507312565017, 0.0387066722172937, 0.0260449185736275,
                0.0785849084330126]"

definition y_initial_zero :: "real list" where
  "y_initial_zero = [-0.070, 0.32, 0.0002, 0, 0, 1, 1, 1, 0, 1, 0, 0.75, 0.75,
                     0, 0.1, 1, 0, 9.2, 0, 0.75, 0.3, 0.9, 0.1]"

subsection \<open>Gating kinetics: the local variables of action\_potential\_diff\_eq\<close>

text \<open>
  Each local variable of the source that is a steady state, a rate or a time constant
  is a function of the state vector here, under the name it has in the source.
  \<open>math.sqrt\<close> is only applied to \<open>1 + exp _\<close> and to constants, where it never raises.
\<close>

definition h_inf :: "real list \<Rightarrow> real" where
  "h_inf y = 1.0 / sqrt (1.0 + exp ((y ! 0 * 1000.0 + 72.1) / 5.7))"

definition alpha_h :: "real list \<Rightarrow> real" where
  "alpha_h y = 0.057 * exp (- (y ! 0 * 1000.0 + 80.0) / 6.8)"

definition beta_h :: "real list \<Rightarrow> real" where
  "beta_h y = 2.7 * exp (0.079 * y ! 0 * 1000.0)
              + 3.1 * 10.0 ^ 5 * exp (0.3485 * y ! 0 * 1000.0)"

definition tau_h :: "real list \<Rightarrow> real" where
  "tau_h y = (if y ! 0 < - 0.0385 then 1.5 / ((alpha_h y + beta_h y) * 1000.0)
              else 1.5 * 1.6947 / 1000.0)"

definition j_inf :: "real list \<Rightarrow> real" where
  "j_inf y = 1.0 / sqrt (1.0 + exp ((y ! 0 * 1000.0 + 72.1) / 5.7))"

definition alpha_j :: "real list \<Rightarrow> real" where
  "alpha_j y = (if y ! 0 < - 0.04
                then (- 25428.0 * exp (0.2444 * y ! 0 * 1000.0)
                      - 6.948 * 10.0 powr (- 6.0) * exp (- 0.04391 * y ! 0 * 1000.0))
                     * (y ! 0 * 1000.0 + 37.78)
                     / (1.0 + exp (0.311 * (y ! 0 * 1000.0 + 79.23)))
                else 0.0)"

definition beta_j :: "real list \<Rightarrow> real" where
  "beta_j y = (if y ! 0 < - 0.04
               then 0.02424 * exp (- 0.01052 * y ! 0 * 1000)
                    / (1 + exp (- 0.1378 * (y ! 0 * 1000 + 40.14)))
               else 0.6 * exp (0.057 * y ! 0 * 1000)
                    / (1 + exp (- 0.1 * (y ! 0 * 1000 + 32))))"

definition tau_j :: "real list \<Rightarrow> real" where
  "tau_j y = 7.0 / ((alpha_j y + beta_j y) * 1000.0)"

definition m_inf :: "real list \<Rightarrow> real" where
  "m_inf y = 1.0 / (1.0 + exp ((- y ! 0 * 1000.0 - 34.1) / 5.9)) powr (1.0 / 3.0)"

definition alpha_m :: "real list \<Rightarrow> real" where
  "alpha_m y = 1.0 / (1.0 + exp ((- y ! 0 * 1000.0 - 60.0) / 5.0))"

definition beta_m :: "real list \<Rightarrow> real" where
  "beta_m y = 0.1 / (1.0 + exp ((y ! 0 * 1000.0 + 35.0) / 5.0))
              + 0.1 / (1.0 + exp ((y ! 0 * 1000.0 - 50.0) / 200.0))"

definition tau_m :: "real list \<Rightarrow> real" where
  "tau_m y = 1.0 * alpha_m y * beta_m y / 1000.0"

definition my_coef_tau_m :: real where
  "my_coef_tau_m = 1"

definition tau_i_na_l_ms :: real where
  "tau_i_na_l_ms = 200"

definition vh_h_late :: real where
  "vh_h_late = 87.61"

definition m_inf_l :: "real list \<Rightarrow> real" where
  "m_inf_l y = 1 / (1 + exp (- (y ! 0 * 1000 + 42.85) / 5.264))"

definition alpha_m_l :: "real list \<Rightarrow> real" where
  "alpha_m_l y = 1 / (1 + exp ((- 60 - y ! 0 * 1000) / 5))"

definition beta_m_l :: "real list \<Rightarrow> real" where
  "beta_m_l y = 0.1 / (1 + exp ((y ! 0 * 1000 + 35) / 5))
                + 0.1 / (1 + exp ((y ! 0 * 1000 - 50) / 200))"

definition tau_m_l :: "real list \<Rightarrow> real" where
  "tau_m_l y = 1 / 1000 * my_coef_tau_m * alpha_m_l y * beta_m_l y"

definition h_inf_l :: "real list \<Rightarrow> real" where
  "h_inf_l y = 1 / (1 + exp ((y ! 0 * 1000 + vh_h_late) / 7.488))"

definition tau_h_l :: real where
  "tau_h_l = 1 / 1000 * tau_i_na_l_ms"

definition xf_infinity :: "real list \<Rightarrow> real" where
  "xf_infinity y = 1.0 / (1.0 + exp ((y ! 0 * 1000.0 + 77.85) / 5.0))"

definition tau_xf :: "real list \<Rightarrow> real" where
  "tau_xf y = 1900.0 / (1.0 + exp ((y ! 0 * 1000.0 + 15.0) / 10.0)) / 1000.0"

definition d_infinity :: "real list \<Rightarrow> real" where
  "d_infinity y = 1.0 / (1.0 + exp (- (y ! 0 * 1000.0 + 9.1) / 7.0))"

definition alpha_d :: "real list \<Rightarrow> real" where
  "alpha_d y = 0.25 + 1.4 / (1.0 + exp ((- y ! 0 * 1000.0 - 35.0) / 13.0))"

definition beta_d :: "real list \<Rightarrow> real" where
  "beta_d y = 1.4 / (1.0 + exp ((y ! 0 * 1000.0 + 5.0) / 5.0))"

definition gamma_d :: "real list \<Rightarrow> real" where
  "gamma_d y = 1.0 / (1.0 + exp ((- y ! 0 * 1000.0 + 50.0) / 20.0))"

definition tau_d :: "real list \<Rightarrow> real" where
  "tau_d y = (alpha_d y * beta_d y + gamma_d y) * 1.0 / 1000.0"

definition f1_inf :: "real list \<Rightarrow> real" where
  "f1_inf y = 1.0 / (1.0 + exp ((y ! 0 * 1000.0 + 26.0) / 3.0))"

definition const_f1 :: "real list \<Rightarrow> real" where
  "const_f1 y = (if f1_inf y - y ! 5 > 0.0
                 then 1.0 + 1433.0 * (y ! 2 - 50.0 * (1.0 / 10 ^ 6))
                 else 1.0)"

definition tau_f1 :: "real list \<Rightarrow> real" where
  "tau_f1 y = (20.0
               + 1102.5 * exp (- (((y ! 0 * 1000.0 + 27.0) ^ 2 / 15.0) ^ 2))
               + 200.0 / (1.0 + exp ((13.0 - y ! 0 * 1000.0) / 10.0))
               + 180.0 / (1.0 + exp ((30.0 + y ! 0 * 1000.0) / 10.0)))
              * const_f1 y / 1000.0"

definition f2_inf :: "real list \<Rightarrow> real" where
  "f2_inf y = 0.33 + 0.67 / (1.0 + exp ((y ! 0 * 1000.0 + 32.0) / 4.0))"

definition const_f2 :: real where
  "const_f2 = 1.0"

definition tau_f2 :: "real list \<Rightarrow> real" where
  "tau_f2 y = (600.0 * exp (- ((y ! 0 * 1000.0 + 25.0) ^ 2) / 170.0)
               + 31.0 / (1.0 + exp ((25.0 - y ! 0 * 1000.0) / 10.0))
               + 16.0 / (1.0 + exp ((30.0 + y ! 0 * 1000.0) / 10.0)))
              * const_f2 / 1000.0"

definition alpha_f_ca :: "real list \<Rightarrow> real" where
  "alpha_f_ca y = 1.0 / (1.0 + (y ! 2 / 0.0006) ^ 8)"

definition beta_f_ca :: "real list \<Rightarrow> real" where
  "beta_f_ca y = 0.1 / (1.0 + exp ((y ! 2 - 0.0009) / 0.0001))"

definition gamma_f_ca :: "real list \<Rightarrow> real" where
  "gamma_f_ca y = 0.3 / (1.0 + exp ((y ! 2 - 0.00075) / 0.0008))"

definition f_ca_inf :: "real list \<Rightarrow> real" where
  "f_ca_inf y = (alpha_f_ca y + beta_f_ca y + gamma_f_ca y) / 1.3156"

definition const_f_ca :: "real list \<Rightarrow> real" where
  "const_f_ca y = (if y ! 0 > - 0.06 \<and> f_ca_inf y > y ! 7 then 0.0 else 1.0)"

definition tau_f_ca :: real where
  "tau_f_ca = 0.002"

definition q_inf :: "real list \<Rightarrow> real" where
  "q_inf y = 1.0 / (1.0 + exp ((y ! 0 * 1000.0 + 53.0) / 13.0))"

definition tau_q :: "real list \<Rightarrow> real" where
  "tau_q y = (6.06 + 39.102 / (0.57 * exp (- 0.08 * (y ! 0 * 1000.0 + 44.0))
                               + 0.065 * exp (0.1 * (y ! 0 * 1000.0 + 45.93))))
             / 1000.0"

definition r_inf :: "real list \<Rightarrow> real" where
  "r_inf y = 1.0 / (1.0 + exp (- (y ! 0 * 1000.0 - 22.3) / 18.75))"

definition tau_r :: "real list \<Rightarrow> real" where
  "tau_r y = (2.75352 + 14.40516 / (1.037 * exp (0.09 * (y ! 0 * 1000.0 + 30.61))
                                    + 0.369 * exp (- 0.12 * (y ! 0 * 1000.0 + 23.84))))
             / 1000.0"

definition xs_infinity :: "real list \<Rightarrow> real" where
  "xs_infinity y = 1.0 / (1.0 + exp ((- y ! 0 * 1000.0 - 20.0) / 16.0))"

definition alpha_xs :: "real list \<Rightarrow> real" where
  "alpha_xs y = 1100.0 / sqrt (1.0 + exp ((- 10.0 - y ! 0 * 1000.0) / 6.0))"

definition beta_xs :: "real list \<Rightarrow> real" where
  "beta_xs y = 1.0 / (1.0 + exp ((- 60.0 + y ! 0 * 1000.0) / 20.0))"

definition tau_xs :: "real list \<Rightarrow> real" where
  "tau_xs y = 1.0 * alpha_xs y * beta_xs y / 1000.0"

definition v_half :: real where
  "v_half = (let l0 = 0.025; q = 2.3 in
     1000.0 * (- r_joule_per_mole_kelvin * t_kelvin / (f_coulomb_per_mole * q)
               * ln ((1.0 + cao_millimolar / 2.6) ^ 4
                     / (l0 * (1.0 + cao_millimolar / 0.58) ^ 4))
               - 0.019))"

definition xr1_inf :: "real list \<Rightarrow> real" where
  "xr1_inf y = 1.0 / (1.0 + exp ((v_half - y ! 0 * 1000.0) / 4.9))"

definition alpha_xr1 :: "real list \<Rightarrow> real" where
  "alpha_xr1 y = 450.0 / (1.0 + exp ((- 45.0 - y ! 0 * 1000.0) / 10.0))"

definition beta_xr1 :: "real list \<Rightarrow> real" where
  "beta_xr1 y = 6.0 / (1.0 + exp ((30.0 + y ! 0 * 1000.0) / 11.5))"

definition tau_xr1 :: "real list \<Rightarrow> real" where
  "tau_xr1 y = 1.0 * alpha_xr1 y * beta_xr1 y / 1000.0"

definition xr2_infinity :: "real list \<Rightarrow> real" where
  "xr2_infinity y = 1.0 / (1.0 + exp ((y ! 0 * 1000.0 + 88.0) / 50.0))"

definition alpha_xr2 :: "real list \<Rightarrow> real" where
  "alpha_xr2 y = 3.0 / (1.0 + exp ((- 60.0 - y ! 0 * 1000.0) / 20.0))"

definition beta_xr2 :: "real list \<Rightarrow> real" where
  "beta_xr2 y = 1.12 / (1.0 + exp ((- 60.0 + y ! 0 * 1000.0) / 20.0))"

definition tau_xr2 :: "real list \<Rightarrow> real" where
  "tau_xr2 y = 1.0 * alpha_xr2 y * beta_xr2 y / 1000.0"

subsection \<open>The model object\<close>

text \<open>
  Modelled from the spec: the classes of the modules \<open>protocols\<close> and \<open>trace\<close> are
  not among the sources. A protocol is one of the three variants with the schedule its
  driver needs (a duration; a duration and a finite ordered sequence of stimulation
  offsets; an ordered sequence of voltage steps, each a target voltage held for a
  duration); \<open>OtherProtocol\<close> stands for an object of any other class. A current
  snapshot is an ordered sequence of named current values, and a fresh
  \<open>CurrentResponseInfo\<close> has recorded none.
\<close>

datatype VoltageClampStep = VoltageClampStep (voltage: real) (duration: real)

datatype protocol =
    SingleActionPotentialProtocol (duration: real)
  | IrregularPacingProtocol (duration: real) (stimulation_offsets: "real list")
      (STIM_AMPLITUDE_AMPS: real)
  | VoltageClampProtocol (steps: "VoltageClampStep list")
  | OtherProtocol

datatype Current = Current (current_name: string) (current_value: real)

record CurrentResponseInfo =
  cri_protocol :: "protocol option"
  currents :: "Current list list"

definition new_CurrentResponseInfo :: "protocol option \<Rightarrow> CurrentResponseInfo" where
  "new_CurrentResponseInfo p = \<lparr>cri_protocol = p, currents = []\<rparr>"

text \<open>
  The instance attributes of \<open>PaciModel\<close>: \<open>self.t\<close> is \<open>self_t\<close>, and so on. An
  object is true in a condition unless it is \<open>None\<close>, so \<open>self.current_response_info\<close>
  is an option.
\<close>

record PaciModel =
  self_default_parameters :: "string \<rightharpoonup> real"
  self_t :: "real list"
  self_y_voltage :: "real list"
  self_d_y_voltage :: "real list"
  self_current_response_info :: "CurrentResponseInfo option"
  self_full_y :: "real list list"

definition default_parameters_dict :: "string \<rightharpoonup> real" where
  "default_parameters_dict =
     [''g_na'' \<mapsto> 3671.2302, ''g_ca_l'' \<mapsto> 8.635702 / 10 ^ 5,
      ''g_f_s'' \<mapsto> 30.10312, ''g_ks_s'' \<mapsto> 2.041,
      ''g_kr_s'' \<mapsto> 29.8667, ''g_k1_s'' \<mapsto> 28.1492,
      ''g_p_ca'' \<mapsto> 0.4125, ''g_b_na'' \<mapsto> 0.95,
      ''g_b_ca'' \<mapsto> 0.727272, ''g_na_lmax'' \<mapsto> 17.25]"

text \<open>
  \<open>PaciModel.__init__\<close>: an absent or empty \<open>updated_parameters\<close> is false in the
  condition; \<open>dict.update\<close> is \<open>++\<close>.
\<close>

definition PaciModel_init :: "(string \<rightharpoonup> real) option \<Rightarrow> PaciModel" where
  "PaciModel_init updated_parameters =
     \<lparr>self_default_parameters =
        (case updated_parameters of
           None \<Rightarrow> default_parameters_dict
         | Some u \<Rightarrow> if u = Map.empty then default_parameters_dict
                     else default_parameters_dict ++ u),
      self_t = [], self_y_voltage = [], self_d_y_voltage = [],
      self_current_response_info = None, self_full_y = []\<rparr>"

text \<open>
  \<open>self.default_parameters[k]\<close>: the ten keys the equations read are set by
  \<open>__init__\<close> and never removed, so the lookup finds the key.
\<close>

definition param :: "PaciModel \<Rightarrow> string \<Rightarrow> real" where
  "param self k = the (self_default_parameters self k)"

subsection \<open>Ionic currents and fluxes\<close>

definition e_k :: real where
  "e_k = r_joule_per_mole_kelvin * t_kelvin / f_coulomb_per_mole
         * ln (ko_millimolar / ki_millimolar)"

definition pk_na :: real where
  "pk_na = 0.03"

definition i_na :: "PaciModel \<Rightarrow> real \<Rightarrow> real list \<Rightarrow> real \<Rightarrow> real" where
  "i_na self t y e_na =
     (of_bool (t < t_drug_application) * 1
      + of_bool (t \<ge> t_drug_application) * i_na_f_red_med)
     * param self ''g_na'' * y ! 13 ^ 3 * y ! 11 * y ! 12 * (y ! 0 - e_na)"

definition i_na_l :: "PaciModel \<Rightarrow> real list \<Rightarrow> real \<Rightarrow> real" where
  "i_na_l self y e_na = param self ''g_na_lmax'' * y ! 18 ^ 3 * y ! 19 * (y ! 0 - e_na)"

definition e_f_volt :: real where
  "e_f_volt = - 0.017"

definition i_f :: "PaciModel \<Rightarrow> real list \<Rightarrow> real" where
  "i_f self y = param self ''g_f_s'' * y ! 14 * (y ! 0 - e_f_volt)"

definition i_f_na :: "PaciModel \<Rightarrow> real list \<Rightarrow> real \<Rightarrow> real" where
  "i_f_na self y e_na = 0.42 * param self ''g_f_s'' * y ! 14 * (y ! 0 - e_na)"

definition i_ca_l :: "PaciModel \<Rightarrow> real \<Rightarrow> real list \<Rightarrow> real" where
  "i_ca_l self t y =
     (of_bool (t < t_drug_application) * 1
      + of_bool (t \<ge> t_drug_application) * i_ca_l_red_med)
     * param self ''g_ca_l'' * 4.0 * y ! 0
     * f_coulomb_per_mole ^ 2 / (r_joule_per_mole_kelvin * t_kelvin)
     * (y ! 2 * exp (2.0 * y ! 0 * f_coulomb_per_mole
                     / (r_joule_per_mole_kelvin * t_kelvin))
        - 0.341 * cao_millimolar)
     / (exp (2.0 * y ! 0 * f_coulomb_per_mole / (r_joule_per_mole_kelvin * t_kelvin))
        - 1.0)
     * y ! 4 * y ! 5 * y ! 6 * y ! 7"

definition g_to_s_per_f :: real where
  "g_to_s_per_f = 29.9038"

definition i_to :: "real list \<Rightarrow> real" where
  "i_to y = g_to_s_per_f * (y ! 0 - e_k) * y ! 15 * y ! 16"

definition i_ks :: "PaciModel \<Rightarrow> real \<Rightarrow> real list \<Rightarrow> real \<Rightarrow> real" where
  "i_ks self t y e_ks =
     (of_bool (t < t_drug_application) * 1
      + of_bool (t \<ge> t_drug_application) * i_ks_red_med)
     * param self ''g_ks_s'' * (y ! 0 - e_ks) * y ! 10 ^ 2
     * (1.0 + 0.6 / (1.0 + (3.8 * 0.00001 / y ! 2) powr 1.4))"

definition i_kr :: "PaciModel \<Rightarrow> real \<Rightarrow> real list \<Rightarrow> real" where
  "i_kr self t y =
     (of_bool (t < t_drug_application) * 1
      + of_bool (t \<ge> t_drug_application) * i_kr_red_med)
     * param self ''g_kr_s'' * (y ! 0 - e_k) * y ! 8 * y ! 9
     * sqrt (ko_millimolar / 5.4)"

definition alpha_k1 :: "real list \<Rightarrow> real" where
  "alpha_k1 y = 3.91 / (1.0 + exp (0.5942 * (y ! 0 * 1000.0 - e_k * 1000.0 - 200.0)))"

definition beta_k1 :: "real list \<Rightarrow> real" where
  "beta_k1 y = (- 1.509 * exp (0.0002 * (y ! 0 * 1000.0 - e_k * 1000.0 + 100.0))
                + exp (0.5886 * (y ! 0 * 1000.0 - e_k * 1000.0 - 10.0)))
               / (1.0 + exp (0.4547 * (y ! 0 * 1000.0 - e_k * 1000.0)))"

definition xk1_inf :: "real list \<Rightarrow> real" where
  "xk1_inf y = alpha_k1 y / (alpha_k1 y + beta_k1 y)"

definition i_k1 :: "PaciModel \<Rightarrow> real list \<Rightarrow> real" where
  "i_k1 self y = param self ''g_k1_s'' * xk1_inf y * (y ! 0 - e_k)
                 * sqrt (ko_millimolar / 5.4)"

definition i_na_ca :: "real list \<Rightarrow> real" where
  "i_na_ca y =
     (let km_ca_millimolar = 1.38; km_nai_millimolar = 87.5; ksat = 0.1; gamma = 0.35;
          k_na_ca1_a_per_f = k_na_ca_a_per_f
      in k_na_ca1_a_per_f
         * (exp (gamma * y ! 0 * f_coulomb_per_mole
                 / (r_joule_per_mole_kelvin * t_kelvin))
            * y ! 17 ^ 3 * cao_millimolar
            - exp ((gamma - 1.0) * y ! 0 * f_coulomb_per_mole
                   / (r_joule_per_mole_kelvin * t_kelvin))
              * nao_millimolar ^ 3 * y ! 2 * alpha_in_i_na_ca)
         / ((km_nai_millimolar ^ 3 + nao_millimolar ^ 3)
            * (km_ca_millimolar + cao_millimolar)
            * (1.0 + ksat * exp ((gamma - 1.0) * y ! 0 * f_coulomb_per_mole
                                 / (r_joule_per_mole_kelvin * t_kelvin)))))"

definition i_na_k :: "real list \<Rightarrow> real" where
  "i_na_k y =
     (let km_k_millimolar = 1.0; km_na_millimolar = 40.0; p_na_k1 = p_na_k_a_per_f
      in p_na_k1 * ko_millimolar / (ko_millimolar + km_k_millimolar)
         * y ! 17 / (y ! 17 + km_na_millimolar)
         / (1.0
            + 0.1245 * exp (- 0.1 * y ! 0 * f_coulomb_per_mole
                            / (r_joule_per_mole_kelvin * t_kelvin))
            + 0.0353 * exp (- y ! 0 * f_coulomb_per_mole
                            / (r_joule_per_mole_kelvin * t_kelvin))))"

definition kp_ca_millimolar :: real where
  "kp_ca_millimolar = 0.0005"

definition i_p_ca :: "PaciModel \<Rightarrow> real list \<Rightarrow> real" where
  "i_p_ca self y = param self ''g_p_ca'' * y ! 2 / (y ! 2 + kp_ca_millimolar)"

definition i_b_na :: "PaciModel \<Rightarrow> real list \<Rightarrow> real \<Rightarrow> real" where
  "i_b_na self y e_na = param self ''g_b_na'' * (y ! 0 - e_na)"

definition i_b_ca :: "PaciModel \<Rightarrow> real list \<Rightarrow> real \<Rightarrow> real" where
  "i_b_ca self y e_ca = param self ''g_b_ca'' * (y ! 0 - e_ca)"

definition i_up :: "real list \<Rightarrow> real" where
  "i_up y = vmax_up_millimolar_per_second
            / (1.0 + k_up_millimolar ^ 2 / y ! 2 ^ 2)"

definition i_leak :: "real list \<Rightarrow> real" where
  "i_leak y = (y ! 1 - y ! 2) * v_leak_per_second"

definition ry_rsr_cass :: "real list \<Rightarrow> real" where
  "ry_rsr_cass y = 1 - 1 / (1 + exp ((y ! 1 - 0.3) / 0.1))"

definition i_rel :: "real list \<Rightarrow> real" where
  "i_rel y = g_irel_max_millimolar_per_second * ry_rsr_cass y * y ! 21 * y ! 22
             * (y ! 1 - y ! 2)"

definition ry_rainfss :: "real list \<Rightarrow> real" where
  "ry_rainfss y = ry_ra_1_micromolar
                  - ry_ra_2_micromolar
                    / (1 + exp ((1000 * y ! 2 - ry_rahalf_micromolar) / 0.0082))"

definition ry_rtauadapt :: real where
  "ry_rtauadapt = 1"

definition ry_roinfss :: "real list \<Rightarrow> real" where
  "ry_roinfss y =
     1 - 1 / (1 + exp ((1000 * y ! 2 - (y ! 20 + ry_rohalf_micromolar)) / 0.003))"

definition ry_rtauact :: "real list \<Rightarrow> real" where
  "ry_rtauact y = (if ry_roinfss y \<ge> y ! 21 then 18.75 / 10 ^ 3
                   else 0.1 * (18.75 / 10 ^ 3))"

definition ry_rcinfss :: "real list \<Rightarrow> real" where
  "ry_rcinfss y =
     1 / (1 + exp ((1000 * y ! 2 - (y ! 20 + ry_rchalf_micromolar)) / 0.001))"

definition ry_rtauinact :: "real list \<Rightarrow> real" where
  "ry_rtauinact y = (if ry_rcinfss y \<ge> y ! 22 then 2 * (87.5 / 10 ^ 3)
                     else 87.5 / 10 ^ 3)"

definition cai_bufc :: "real list \<Rightarrow> real" where
  "cai_bufc y =
     (let buf_c_millimolar = 0.25; kbuf_c_millimolar = 0.001
      in 1.0 / (1.0 + buf_c_millimolar * kbuf_c_millimolar
                      / (y ! 2 + kbuf_c_millimolar) ^ 2))"

definition ca_sr_buf_sr :: "real list \<Rightarrow> real" where
  "ca_sr_buf_sr y =
     (let buf_sr_millimolar = 10.0; kbuf_sr_millimolar = 0.3
      in 1.0 / (1.0 + buf_sr_millimolar * kbuf_sr_millimolar
                      / (y ! 1 + kbuf_sr_millimolar) ^ 2))"

subsection \<open>The state derivative: action\_potential\_diff\_eq\<close>

text \<open>
  \<open>np.empty(23)\<close> is an array of 23 entries of no specified content; every entry is
  assigned before the array is returned.
\<close>

definition np_empty :: "nat \<Rightarrow> real list" where
  "np_empty n = replicate n undefined"

text \<open>The assignments to \<open>d_y\<close>, in the order of the source.\<close>

definition d_y_of :: "PaciModel \<Rightarrow> real \<Rightarrow> real list \<Rightarrow> real \<Rightarrow> real \<Rightarrow> real \<Rightarrow> real list" where
  "d_y_of self t y e_na e_ca e_ks =
     (np_empty 23)
     [11 := (h_inf y - y ! 11) / tau_h y,
      12 := (j_inf y - y ! 12) / tau_j y,
      13 := (m_inf y - y ! 13) / tau_m y,
      18 := (m_inf_l y - y ! 18) / tau_m_l y,
      19 := (h_inf_l y - y ! 19) / tau_h_l,
      14 := (xf_infinity y - y ! 14) / tau_xf y,
      4 := (d_infinity y - y ! 4) / tau_d y,
      5 := (f1_inf y - y ! 5) / tau_f1 y,
      6 := (f2_inf y - y ! 6) / tau_f2 y,
      7 := const_f_ca y * (f_ca_inf y - y ! 7) / tau_f_ca,
      15 := (q_inf y - y ! 15) / tau_q y,
      16 := (r_inf y - y ! 16) / tau_r y,
      10 := (xs_infinity y - y ! 10) / tau_xs y,
      8 := (xr1_inf y - y ! 8) / tau_xr1 y,
      9 := (xr2_infinity y - y ! 9) / tau_xr2 y,
      3 := 0,
      20 := (ry_rainfss y - y ! 20) / ry_rtauadapt,
      21 := (ry_roinfss y - y ! 21) / ry_rtauact y,
      22 := (ry_rcinfss y - y ! 22) / ry_rtauinact y,
      17 := - cm_farad
            * (i_na self t y e_na + i_na_l self y e_na + i_b_na self y e_na
               + 3.0 * i_na_k y + 3.0 * i_na_ca y + i_f_na self y e_na)
            / (f_coulomb_per_mole * vc_micrometer_cube * (1.0 / 10 ^ 18)),
      2 := cai_bufc y
           * (i_leak y - i_up y + i_rel y
              - (i_ca_l self t y + i_b_ca self y e_ca + i_p_ca self y - 2.0 * i_na_ca y)
                * cm_farad
                / (2.0 * vc_micrometer_cube * f_coulomb_per_mole * (1.0 / 10 ^ 18))),
      1 := ca_sr_buf_sr y * vc_micrometer_cube / v_sr_micrometer_cube
           * (i_up y - (i_rel y + i_leak y)),
      0 := - (i_k1 self y + i_to y + i_kr self t y + i_ks self t y e_ks + i_ca_l self t y
              + i_na_k y + i_na self t y e_na + i_na_l self y e_na + i_na_ca y
              + i_p_ca self y + i_f self y + i_b_na self y e_na + i_b_ca self y e_ca)]"

definition current_timestep ::
    "PaciModel \<Rightarrow> real \<Rightarrow> real list \<Rightarrow> real \<Rightarrow> real \<Rightarrow> real \<Rightarrow> Current list" where
  "current_timestep self t y e_na e_ca e_ks =
     [Current ''i_k1'' (i_k1 self y),
      Current ''i_to'' (i_to y),
      Current ''i_kr'' (i_kr self t y),
      Current ''i_ks'' (i_ks self t y e_ks),
      Current ''i_ca_l'' (i_ca_l self t y),
      Current ''i_na_k'' (i_na_k y),
      Current ''i_na'' (i_na self t y e_na),
      Current ''i_na_l'' (i_na_l self y e_na),
      Current ''i_na_ca'' (i_na_ca y),
      Current ''i_p_ca'' (i_p_ca self y),
      Current ''i_f'' (i_f self y),
      Current ''i_b_na'' (i_b_na self y e_na),
      Current ''i_b_ca'' (i_b_ca self y e_ca)]"

text \<open>
  The function returns the changed object together with the derivative or the exception
  raised: what was appended to the histories before a raise stays appended. An index
  beyond the end of \<open>y\<close> raises IndexError at the first read that meets it: \<open>y[0]\<close>
  before anything is recorded, \<open>y[17]\<close> in the first Nernst potential, \<open>y[18]\<close> to
  \<open>y[22]\<close> after the three logarithms. The solver passes arrays of the 23 entries of
  the initial state.
\<close>

definition action_potential_diff_eq ::
    "PaciModel \<Rightarrow> real \<Rightarrow> real list \<Rightarrow> PaciModel \<times> (exn + real list)" where
  "action_potential_diff_eq self t y =
     (if length y = 0 then (self, Inl IndexError)
      else
        let self = self\<lparr>self_y_voltage := self_y_voltage self @ [y ! 0],
                        self_t := self_t self @ [t],
                        self_full_y := self_full_y self @ [y]\<rparr>
        in
        if length y \<le> 17 then (self, Inl IndexError)
        else
          case py_log (nao_millimolar / y ! 17) of
            Inl e \<Rightarrow> (self, Inl e)
          | Inr log_na \<Rightarrow>
          let e_na = r_joule_per_mole_kelvin * t_kelvin / f_coulomb_per_mole * log_na in
          case py_log (cao_millimolar / y ! 2) of
            Inl e \<Rightarrow> (self, Inl e)
          | Inr log_ca \<Rightarrow>
          let e_ca = 0.5 * r_joule_per_mole_kelvin * t_kelvin / f_coulomb_per_mole * log_ca in
          case py_log ((ko_millimolar + pk_na * nao_millimolar)
                       / (ki_millimolar + pk_na * y ! 17)) of
            Inl e \<Rightarrow> (self, Inl e)
          | Inr log_ks \<Rightarrow>
          let e_ks = r_joule_per_mole_kelvin * t_kelvin / f_coulomb_per_mole * log_ks in
          if length y < 23 then (self, Inl IndexError)
          else
            let d_y = d_y_of self t y e_na e_ca e_ks;
                self =
                  (case self_current_response_info self of
                     None \<Rightarrow> self
                   | Some info \<Rightarrow>
                       self\<lparr>self_current_response_info :=
                         Some (info\<lparr>currents :=
                           currents info @ [current_timestep self t y e_na e_ca e_ks]\<rparr>)\<rparr>);
                self = self\<lparr>self_d_y_voltage := self_d_y_voltage self @ [d_y ! 0]\<rparr>
            in (self, Inr d_y))"

subsection \<open>The external integrator\<close>

text \<open>
  \<open>scipy.integrate.solve_ivp\<close> is not part of the repository. What it does with the
  forcing function is a parameter: a solver is finished with a status (the call returns
  a result object, which the caller drops; status \<open>-1\<close> reports a failed integration
  step, \<open>0\<close> that the end of the span was reached), raises an exception of its own, or
  evaluates the forcing function at a time and a state and goes on according to the
  derivative it gets. An exception of the forcing function leaves \<open>solve_ivp\<close> as it
  is. The voltage-clamp driver writes into the array the solver passes; what the solver
  does with the changed array is part of the parameter.
\<close>

datatype solver = Return int | Raise exn | Eval real "real list" "real list \<Rightarrow> solver"

record ivp_args =
  t_span :: "real \<times> real"
  y0 :: "real list"
  ivp_method :: string
  max_step :: real

type_synonym integrator = "ivp_args \<Rightarrow> solver"

primrec solve_ivp ::
    "solver \<Rightarrow> ('s \<Rightarrow> real \<Rightarrow> real list \<Rightarrow> 's \<times> (exn + real list)) \<Rightarrow> 's \<Rightarrow> 's \<times> (exn + int)" where
  "solve_ivp (Return status) f s = (s, Inr status)"
| "solve_ivp (Raise e) f s = (s, Inl e)"
| "solve_ivp (Eval t y k) f s =
     (case f s t y of
        (s', Inl e) \<Rightarrow> (s', Inl e)
      | (s', Inr d_y) \<Rightarrow> solve_ivp (k d_y) f s')"

subsection \<open>Protocol drivers\<close>

text \<open>
  Modelled from the spec: \<open>trace.IrregularPacingInfo\<close> is not among the sources. A
  pacing record holds the ordered detected peak times, the ordered detected APD90 times,
  the ordered scheduled stimulation times and the pending 90\%-repolarization voltage.
\<close>

record IrregularPacingInfo =
  peaks :: "real list"
  apd_90s :: "real list"
  stimulations :: "real list"
  apd_90_end_voltage :: real

text \<open>
  The methods and class constants of \<open>protocols\<close> and \<open>trace\<close> that the drivers call
  are parameters: the voltage of the step schedule at a time (it may raise), the
  detector's three decisions, which read the pacing record, the recording of an APD90
  time, which changes it, the baseline voltage and the record a run starts with.
\<close>

record externals =
  get_voltage_at_time :: "protocol \<Rightarrow> real \<Rightarrow> exn + real"
  new_IrregularPacingInfo :: IrregularPacingInfo
  AVG_AP_START_VOLTAGE :: real
  detect_peak :: "IrregularPacingInfo \<Rightarrow> real list \<Rightarrow> real \<Rightarrow> real list \<Rightarrow> bool"
  detect_apd_90 :: "IrregularPacingInfo \<Rightarrow> real \<Rightarrow> bool"
  add_apd_90 :: "IrregularPacingInfo \<Rightarrow> real \<Rightarrow> IrregularPacingInfo"
  should_stimulate :: "IrregularPacingInfo \<Rightarrow> real \<Rightarrow> bool"

text \<open>
  Modelled from the spec: \<open>voltage_change_endpoints\<close> of a voltage-clamp protocol, the
  ends of the cumulative-duration intervals of its steps.
\<close>

fun cumulative_durations :: "real \<Rightarrow> VoltageClampStep list \<Rightarrow> real list" where
  "cumulative_durations cumulative_time [] = []"
| "cumulative_durations cumulative_time (i # rest) =
     (cumulative_time + VoltageClampStep.duration i)
     # cumulative_durations (cumulative_time + VoltageClampStep.duration i) rest"

definition voltage_change_endpoints :: "protocol \<Rightarrow> real list" where
  "voltage_change_endpoints p = cumulative_durations 0 (steps p)"

text \<open>\<open>xs[-1]\<close> raises IndexError on an empty list.\<close>

definition py_last :: "'a list \<Rightarrow> exn + 'a" where
  "py_last xs = (if xs = [] then Inl IndexError else Inr (last xs))"

definition single_action_potential ::
    "PaciModel \<Rightarrow> real \<Rightarrow> real list \<Rightarrow> PaciModel \<times> (exn + real list)" where
  "single_action_potential self t y = action_potential_diff_eq self t y"

text \<open>
  The closure \<open>irregular_pacing\<close> owns, besides the model object, the pacing record and
  the generator of offsets: the offsets not yet drawn, \<open>next\<close> raising StopIteration on
  the empty list. Its three conditionals are the three blocks below.
\<close>

definition peak_block ::
    "externals \<Rightarrow> PaciModel \<Rightarrow> IrregularPacingInfo \<Rightarrow> real \<Rightarrow> real list \<Rightarrow> IrregularPacingInfo" where
  "peak_block ext self pacing_info t y =
     (if detect_peak ext pacing_info (self_t self) (y ! 0) (self_d_y_voltage self)
      then
        let pacing_info = pacing_info\<lparr>peaks := peaks pacing_info @ [t]\<rparr>;
            voltage_diff = \<bar>AVG_AP_START_VOLTAGE ext - y ! 0\<bar>
        in pacing_info\<lparr>apd_90_end_voltage := y ! 0 - voltage_diff * 0.9\<rparr>
      else pacing_info)"

definition apd_90_block ::
    "externals \<Rightarrow> IrregularPacingInfo \<times> real list \<Rightarrow> real \<Rightarrow> real list
      \<Rightarrow> IrregularPacingInfo \<times> real list" where
  "apd_90_block ext st t y =
     (case st of (pacing_info, offset_times) \<Rightarrow>
        if detect_apd_90 ext pacing_info (y ! 0)
        then
          let pacing_info = add_apd_90 ext pacing_info t
          in (case offset_times of
                [] \<Rightarrow> (pacing_info, [])
              | offset # rest \<Rightarrow>
                  (pacing_info\<lparr>stimulations := stimulations pacing_info @ [t + offset]\<rparr>,
                   rest))
        else (pacing_info, offset_times))"

definition stimulation_block ::
    "externals \<Rightarrow> protocol \<Rightarrow> IrregularPacingInfo \<Rightarrow> real \<Rightarrow> real list \<Rightarrow> real list" where
  "stimulation_block ext protocol pacing_info t d_y =
     (let i_stimulation =
            (if should_stimulate ext pacing_info t
             then STIM_AMPLITUDE_AMPS protocol / cm_farad else 0.0)
      in d_y[0 := d_y ! 0 + i_stimulation])"

definition irregular_pacing ::
    "externals \<Rightarrow> protocol \<Rightarrow> PaciModel \<times> IrregularPacingInfo \<times> real list \<Rightarrow> real \<Rightarrow> real list
      \<Rightarrow> (PaciModel \<times> IrregularPacingInfo \<times> real list) \<times> (exn + real list)" where
  "irregular_pacing ext protocol st t y =
     (case st of (self, pacing_info, offset_times) \<Rightarrow>
        case action_potential_diff_eq self t y of
          (self, Inl e) \<Rightarrow> ((self, pacing_info, offset_times), Inl e)
        | (self, Inr d_y) \<Rightarrow>
            let pacing_info = peak_block ext self pacing_info t y;
                (pacing_info, offset_times) = apd_90_block ext (pacing_info, offset_times) t y;
                d_y = stimulation_block ext protocol pacing_info t d_y
            in ((self, pacing_info, offset_times), Inr d_y))"

definition voltage_clamp ::
    "externals \<Rightarrow> protocol \<Rightarrow> PaciModel \<Rightarrow> real \<Rightarrow> real list \<Rightarrow> PaciModel \<times> (exn + real list)" where
  "voltage_clamp ext protocol self t y =
     (case get_voltage_at_time ext protocol t of
        Inl e \<Rightarrow> (self, Inl e)
      | Inr v \<Rightarrow>
          if length y = 0 then (self, Inl IndexError)
          else action_potential_diff_eq self t (y[0 := v]))"

subsection \<open>generate\_response\<close>

text \<open>
  Modelled from the spec: a \<open>trace.Trace\<close> holds the time samples, the voltage samples
  and, when given, the current snapshots and the pacing record.
\<close>

record Trace =
  trace_t :: "real list"
  trace_y :: "real list"
  trace_pacing_info :: "IrregularPacingInfo option"
  trace_current_response_info :: "CurrentResponseInfo option"

text \<open>
  \<open>except ValueError\<close> ends the call with \<open>None\<close>; an exception of another class
  leaves \<open>generate_response\<close>. The argument \<open>protocol.voltage_change_endpoints[-1]\<close> is
  evaluated inside the \<open>try\<close>, before the integrator is called. The \<open>print\<close> of the
  first branch is not modelled.
\<close>

definition reset :: "PaciModel \<Rightarrow> PaciModel" where
  "reset self = self\<lparr>self_t := [], self_y_voltage := [], self_d_y_voltage := [],
                      self_full_y := []\<rparr>"

definition try_except_ValueError :: "exn + 'a \<Rightarrow> Trace \<Rightarrow> exn + Trace option" where
  "try_except_ValueError r tr =
     (case r of
        Inl e \<Rightarrow> if e = ValueError then Inr None else Inl e
      | Inr _ \<Rightarrow> Inr (Some tr))"

definition BDF_args :: "real \<times> real \<Rightarrow> real list \<Rightarrow> ivp_args" where
  "BDF_args interval y_init =
     \<lparr>t_span = interval, y0 = y_init, ivp_method = ''BDF'', max_step = 1 / 10 ^ 3\<rparr>"

definition generate_response ::
    "externals \<Rightarrow> integrator \<Rightarrow> PaciModel \<Rightarrow> protocol \<Rightarrow> PaciModel \<times> (exn + Trace option)" where
  "generate_response ext integrator self protocol =
     (let self = reset self in
      case protocol of
        SingleActionPotentialProtocol d \<Rightarrow>
          (let self = self\<lparr>self_current_response_info := Some (new_CurrentResponseInfo None)\<rparr>
           in case solve_ivp (integrator (BDF_args (0, d) y_initial_zero))
                     single_action_potential self of
                (self, r) \<Rightarrow>
                  (self, try_except_ValueError r
                     \<lparr>trace_t = self_t self, trace_y = self_y_voltage self,
                      trace_pacing_info = None,
                      trace_current_response_info = self_current_response_info self\<rparr>))
      | IrregularPacingProtocol d offsets amplitude \<Rightarrow>
          (let pacing_info = new_IrregularPacingInfo ext
           in case solve_ivp (integrator (BDF_args (0, d) y_initial))
                     (irregular_pacing ext protocol) (self, pacing_info, offsets) of
                ((self, pacing_info, offset_times), r) \<Rightarrow>
                  (self, try_except_ValueError r
                     \<lparr>trace_t = self_t self, trace_y = self_y_voltage self,
                      trace_pacing_info = Some pacing_info,
                      trace_current_response_info = None\<rparr>))
      | VoltageClampProtocol sts \<Rightarrow>
          (let self = self\<lparr>self_current_response_info :=
                             Some (new_CurrentResponseInfo (Some protocol))\<rparr>
           in case py_last (voltage_change_endpoints protocol) of
                Inl e \<Rightarrow> (self, if e = ValueError then Inr None else Inl e)
              | Inr t_end \<Rightarrow>
                  (case solve_ivp (integrator (BDF_args (0, t_end) y_initial))
                          (voltage_clamp ext protocol) self of
                     (self, r) \<Rightarrow>
                       (self, try_except_ValueError r
                          \<lparr>trace_t = self_t self, trace_y = self_y_voltage self,
                           trace_pacing_info = None,
                           trace_current_response_info = self_current_response_info self\<rparr>)))
      | OtherProtocol \<Rightarrow> (self, Inr None))"

subsection \<open>generate\_trace\<close>

text \<open>
  Modelled from the spec: \<open>ga_configs.Parameter\<close> is not among the sources; a tunable
  parameter has a name and a default value.
\<close>

datatype Parameter = Parameter (name: string) (default_value: real)

text \<open>
  The loop \<open>for i in range(len(params))\<close>: \<open>tunable_parameters[i]\<close> raises IndexError
  when \<open>params\<close> is the longer list.
\<close>

fun assign_new_params ::
    "Parameter list \<Rightarrow> real list \<Rightarrow> nat list \<Rightarrow> (string \<rightharpoonup> real) \<Rightarrow> exn + (string \<rightharpoonup> real)" where
  "assign_new_params tunable_parameters params [] new_params = Inr new_params"
| "assign_new_params tunable_parameters params (i # indices) new_params =
     (if i < length tunable_parameters
      then assign_new_params tunable_parameters params indices
             (new_params(name (tunable_parameters ! i) \<mapsto> params ! i))
      else Inl IndexError)"

text \<open>An argument that is \<open>None\<close> or an empty list is false in the condition.\<close>

definition new_params_of ::
    "Parameter list option \<Rightarrow> real list option \<Rightarrow> exn + (string \<rightharpoonup> real)" where
  "new_params_of tunable_parameters params =
     (case (params, tunable_parameters) of
        (Some ps, Some tp) \<Rightarrow>
          if ps \<noteq> [] \<and> tp \<noteq> []
          then assign_new_params tp ps [0..<length ps] Map.empty
          else Inr Map.empty
      | _ \<Rightarrow> Inr Map.empty)"

definition generate_trace ::
    "externals \<Rightarrow> integrator \<Rightarrow> protocol \<Rightarrow> Parameter list option \<Rightarrow> real list option
      \<Rightarrow> exn + Trace option" where
  "generate_trace ext integrator protocol tunable_parameters params =
     (case new_params_of tunable_parameters params of
        Inl e \<Rightarrow> Inl e
      | Inr new_params \<Rightarrow>
          snd (generate_response ext integrator (PaciModel_init (Some new_params)) protocol))"

subsection \<open>Auxiliary notions for the statements\<close>

text \<open>The three Nernst potentials that depend on the state, where their logarithms exist.\<close>

definition e_na_of :: "real list \<Rightarrow> real" where
  "e_na_of y = r_joule_per_mole_kelvin * t_kelvin / f_coulomb_per_mole
               * ln (nao_millimolar / y ! 17)"

definition e_ca_of :: "real list \<Rightarrow> real" where
  "e_ca_of y = 0.5 * r_joule_per_mole_kelvin * t_kelvin / f_coulomb_per_mole
               * ln (cao_millimolar / y ! 2)"

definition e_ks_of :: "real list \<Rightarrow> real" where
  "e_ks_of y = r_joule_per_mole_kelvin * t_kelvin / f_coulomb_per_mole
               * ln ((ko_millimolar + pk_na * nao_millimolar)
                     / (ki_millimolar + pk_na * y ! 17))"

text \<open>What one evaluation appends to the histories of the object.\<close>

definition recorded :: "PaciModel \<Rightarrow> real \<Rightarrow> real list \<Rightarrow> PaciModel" where
  "recorded self t y =
     self\<lparr>self_y_voltage := self_y_voltage self @ [y ! 0],
          self_t := self_t self @ [t],
          self_full_y := self_full_y self @ [y]\<rparr>"

text \<open>
  The object after an evaluation that returns: the histories extended, the current
  snapshot appended when diagnostics are on, the voltage derivative appended.
\<close>

definition finished :: "PaciModel \<Rightarrow> real \<Rightarrow> real list \<Rightarrow> PaciModel" where
  "finished self t y =
     (let self1 = recorded self t y;
          self2 = (case self_current_response_info self1 of
                     None \<Rightarrow> self1
                   | Some info \<Rightarrow>
                       self1\<lparr>self_current_response_info :=
                         Some (info\<lparr>currents := currents info
                            @ [current_timestep self t y (e_na_of y) (e_ca_of y) (e_ks_of y)]\<rparr>)\<rparr>)
      in self2\<lparr>self_d_y_voltage := self_d_y_voltage self2
                 @ [d_y_of self t y (e_na_of y) (e_ca_of y) (e_ks_of y) ! 0]\<rparr>)"

text \<open>
  An instance of the parameters with constant decisions: the schedule holds one voltage,
  the detector answers the same at every evaluation, and recording an APD90 time appends
  it to the list of them.
\<close>

definition constant_externals :: "real \<Rightarrow> bool \<Rightarrow> bool \<Rightarrow> bool \<Rightarrow> externals" where
  "constant_externals v peak apd stim =
     \<lparr>get_voltage_at_time = (\<lambda>p t. Inr v),
      new_IrregularPacingInfo =
        \<lparr>peaks = [], apd_90s = [], stimulations = [], apd_90_end_voltage = - 1\<rparr>,
      AVG_AP_START_VOLTAGE = - 0.075,
      detect_peak = (\<lambda>info ts v' ds. peak),
      detect_apd_90 = (\<lambda>info v'. apd),
      add_apd_90 = (\<lambda>info t. info\<lparr>apd_90s := apd_90s info @ [t]\<rparr>),
      should_stimulate = (\<lambda>info t. stim)\<rparr>"

text \<open>
  Instances of the integrator: one that returns at once with a status, one that raises
  at once, and one that evaluates the forcing function once and then returns with a
  status.
\<close>

definition returns_status :: "int \<Rightarrow> integrator" where
  "returns_status status args = Return status"

definition raises :: "exn \<Rightarrow> integrator" where
  "raises e args = Raise e"

definition evaluates_once :: "real \<Rightarrow> real list \<Rightarrow> int \<Rightarrow> integrator" where
  "evaluates_once t y status args = Eval t y (\<lambda>d_y. Return status)"

text \<open>
  The outcome of the call of \<open>solve_ivp\<close> that \<open>generate_response\<close> makes for a
  protocol, when it makes one: the exception that leaves the call, or the status of the
  result it returns.
\<close>

definition solver_outcome ::
    "externals \<Rightarrow> integrator \<Rightarrow> PaciModel \<Rightarrow> protocol \<Rightarrow> (exn + int) option" where
  "solver_outcome ext integrator self protocol =
     (case protocol of
        SingleActionPotentialProtocol d \<Rightarrow>
          Some (snd (solve_ivp (integrator (BDF_args (0, d) y_initial_zero))
                       single_action_potential
                       ((reset self)\<lparr>self_current_response_info :=
                          Some (new_CurrentResponseInfo None)\<rparr>)))
      | IrregularPacingProtocol d offsets amplitude \<Rightarrow>
          Some (snd (solve_ivp (integrator (BDF_args (0, d) y_initial))
                       (irregular_pacing ext protocol)
                       (reset self, new_IrregularPacingInfo ext, offsets)))
      | VoltageClampProtocol sts \<Rightarrow>
          if sts = [] then None
          else Some (snd (solve_ivp
                       (integrator (BDF_args (0, sum_list (map VoltageClampStep.duration sts))
                                      y_initial))
                       (voltage_clamp ext protocol)
                       ((reset self)\<lparr>self_current_response_info :=
                          Some (new_CurrentResponseInfo (Some protocol))\<rparr>)))
      | OtherProtocol \<Rightarrow> None)"

section \<open>Properties\<close>

subsection \<open>When the state derivative returns, and what\<close>

lemma py_log_Inr: "py_log x = Inr v \<longleftrightarrow> 0 < x \<and> v = ln x"
  by (auto simp: py_log_def)

lemma py_log_Inl: "py_log x = Inl e \<longleftrightarrow> \<not> 0 < x \<and> e = ValueError"
  by (auto simp: py_log_def)

lemma param_default_parameters:
  "self_default_parameters a = self_default_parameters b \<Longrightarrow> param a k = param b k"
  by (simp add: param_def)

lemma d_y_of_cong:
  assumes "self_default_parameters a = self_default_parameters b"
  shows "d_y_of a t y e1 e2 e3 = d_y_of b t y e1 e2 e3"
  using param_default_parameters[OF assms]
  by (simp add: d_y_of_def i_na_def i_na_l_def i_b_na_def i_f_na_def i_ca_l_def i_b_ca_def
      i_p_ca_def i_k1_def i_kr_def i_ks_def i_f_def)

lemma current_timestep_cong:
  assumes "self_default_parameters a = self_default_parameters b"
  shows "current_timestep a t y e1 e2 e3 = current_timestep b t y e1 e2 e3"
  using param_default_parameters[OF assms]
  by (simp add: current_timestep_def i_na_def i_na_l_def i_b_na_def i_f_na_def i_ca_l_def i_b_ca_def
      i_p_ca_def i_k1_def i_kr_def i_ks_def i_f_def)

lemma logs_defined:
  assumes "0 < y ! 17" "0 < y ! 2"
  shows "py_log (nao_millimolar / y ! 17) = Inr (ln (nao_millimolar / y ! 17))"
    and "py_log (cao_millimolar / y ! 2) = Inr (ln (cao_millimolar / y ! 2))"
    and "py_log ((ko_millimolar + pk_na * nao_millimolar) / (ki_millimolar + pk_na * y ! 17))
         = Inr (ln ((ko_millimolar + pk_na * nao_millimolar) / (ki_millimolar + pk_na * y ! 17)))"
proof -
  show "py_log (nao_millimolar / y ! 17) = Inr (ln (nao_millimolar / y ! 17))"
    using assms by (simp add: py_log_def nao_millimolar_def)
  show "py_log (cao_millimolar / y ! 2) = Inr (ln (cao_millimolar / y ! 2))"
    using assms by (simp add: py_log_def cao_millimolar_def)
  have "0 < ki_millimolar + pk_na * y ! 17"
    using assms by (simp add: ki_millimolar_def pk_na_def add_pos_pos)
  moreover have "0 < ko_millimolar + pk_na * nao_millimolar"
    by (simp add: ko_millimolar_def pk_na_def nao_millimolar_def)
  ultimately show "py_log ((ko_millimolar + pk_na * nao_millimolar) / (ki_millimolar + pk_na * y ! 17))
         = Inr (ln ((ko_millimolar + pk_na * nao_millimolar) / (ki_millimolar + pk_na * y ! 17)))"
    by (simp add: py_log_def)
qed

lemma apd_returns:
  assumes "23 \<le> length y" "0 < y ! 17" "0 < y ! 2"
  shows "action_potential_diff_eq self t y
         = (finished self t y, Inr (d_y_of self t y (e_na_of y) (e_ca_of y) (e_ks_of y)))"
proof -
  have dp: "self_default_parameters (recorded self t y) = self_default_parameters self"
    by (simp add: recorded_def)
  note c1 = d_y_of_cong[OF dp] current_timestep_cong[OF dp]
  have l: "length y \<noteq> 0" "\<not> length y \<le> 17" "\<not> length y < 23"
    using assms(1) by auto
  have e: "r_joule_per_mole_kelvin * t_kelvin / f_coulomb_per_mole * ln (nao_millimolar / y ! 17)
           = e_na_of y"
     "0.5 * r_joule_per_mole_kelvin * t_kelvin / f_coulomb_per_mole * ln (cao_millimolar / y ! 2)
           = e_ca_of y"
     "r_joule_per_mole_kelvin * t_kelvin / f_coulomb_per_mole
        * ln ((ko_millimolar + pk_na * nao_millimolar) / (ki_millimolar + pk_na * y ! 17))
           = e_ks_of y"
    by (simp_all only: e_na_of_def e_ca_of_def e_ks_of_def)
  show ?thesis
    unfolding action_potential_diff_eq_def finished_def
    by (simp only: l if_False logs_defined[OF assms(2,3)] sum.case Let_def
        recorded_def[symmetric] e c1 cong: option.case_cong)
qed

lemma apd_Inr_domain:
  assumes "action_potential_diff_eq self t y = (self', Inr d)"
  shows "23 \<le> length y \<and> 0 < y ! 17 \<and> 0 < y ! 2"
proof -
  have a: "0 < nao_millimolar / x \<Longrightarrow> 0 < x" for x
    by (simp add: nao_millimolar_def zero_less_divide_iff)
  have b: "0 < cao_millimolar / x \<Longrightarrow> 0 < x" for x
    by (simp add: cao_millimolar_def zero_less_divide_iff)
  from assms show ?thesis
    unfolding action_potential_diff_eq_def Let_def
    by (auto split: if_splits sum.splits simp: py_log_Inr dest: a b)
qed

lemma apd_Inr_eq:
  assumes "action_potential_diff_eq self t y = (self', Inr d)"
  shows "self' = finished self t y"
    and "d = d_y_of self t y (e_na_of y) (e_ca_of y) (e_ks_of y)"
  using apd_Inr_domain[OF assms] assms by (simp_all add: apd_returns)

lemma length_d_y_of: "length (d_y_of self t y e1 e2 e3) = 23"
  by (simp add: d_y_of_def np_empty_def)

lemma d_y_of_3: "d_y_of self t y e1 e2 e3 ! 3 = 0"
  by (simp add: d_y_of_def np_empty_def)


lemma d_y_of_gates:
  "d_y_of self t y e1 e2 e3 ! 4 = (d_infinity y - y ! 4) / tau_d y"
  "d_y_of self t y e1 e2 e3 ! 5 = (f1_inf y - y ! 5) / tau_f1 y"
  "d_y_of self t y e1 e2 e3 ! 6 = (f2_inf y - y ! 6) / tau_f2 y"
  "d_y_of self t y e1 e2 e3 ! 7 = const_f_ca y * (f_ca_inf y - y ! 7) / tau_f_ca"
  "d_y_of self t y e1 e2 e3 ! 8 = (xr1_inf y - y ! 8) / tau_xr1 y"
  "d_y_of self t y e1 e2 e3 ! 9 = (xr2_infinity y - y ! 9) / tau_xr2 y"
  "d_y_of self t y e1 e2 e3 ! 10 = (xs_infinity y - y ! 10) / tau_xs y"
  "d_y_of self t y e1 e2 e3 ! 11 = (h_inf y - y ! 11) / tau_h y"
  "d_y_of self t y e1 e2 e3 ! 12 = (j_inf y - y ! 12) / tau_j y"
  "d_y_of self t y e1 e2 e3 ! 13 = (m_inf y - y ! 13) / tau_m y"
  "d_y_of self t y e1 e2 e3 ! 14 = (xf_infinity y - y ! 14) / tau_xf y"
  "d_y_of self t y e1 e2 e3 ! 15 = (q_inf y - y ! 15) / tau_q y"
  "d_y_of self t y e1 e2 e3 ! 16 = (r_inf y - y ! 16) / tau_r y"
  "d_y_of self t y e1 e2 e3 ! 18 = (m_inf_l y - y ! 18) / tau_m_l y"
  "d_y_of self t y e1 e2 e3 ! 19 = (h_inf_l y - y ! 19) / tau_h_l"
  by (simp_all add: d_y_of_def np_empty_def)

lemma y_initial_zero_facts:
  "length y_initial_zero = 23" "0 < y_initial_zero ! 2" "0 < y_initial_zero ! 17"
  by (simp_all add: y_initial_zero_def)

lemma apd_negative_calcium:
  assumes "17 < length y" "y ! 2 < 0"
  shows "snd (action_potential_diff_eq self t y) = Inl ValueError"
proof -
  have l: "length y \<noteq> 0" "\<not> length y \<le> 17"
    using assms(1) by auto
  have "\<not> 0 < cao_millimolar / y ! 2"
    using assms(2) by (simp add: cao_millimolar_def zero_less_divide_iff)
  then have c: "py_log (cao_millimolar / y ! 2) = Inl ValueError"
    by (simp add: py_log_def)
  show ?thesis
  proof (cases "py_log (nao_millimolar / y ! 17)")
    case (Inl e)
    then have "e = ValueError" by (simp add: py_log_Inl)
    with Inl l show ?thesis
      by (simp add: action_potential_diff_eq_def Let_def)
  next
    case (Inr v)
    with c l show ?thesis
      by (simp add: action_potential_diff_eq_def Let_def)
  qed
qed

lemma apd_negative_sodium:
  assumes "17 < length y" "y ! 17 < 0"
  shows "snd (action_potential_diff_eq self t y) = Inl ValueError"
proof -
  have "\<not> 0 < nao_millimolar / y ! 17"
    using assms(2) by (simp add: nao_millimolar_def zero_less_divide_iff)
  then have "py_log (nao_millimolar / y ! 17) = Inl ValueError"
    by (simp add: py_log_def)
  moreover have "length y \<noteq> 0" "\<not> length y \<le> 17"
    using assms(1) by auto
  ultimately show ?thesis
    by (simp add: action_potential_diff_eq_def Let_def)
qed

text \<open>
  Claim C2, as amended. The call does not return for every state: a negative
  intracellular sodium \<open>y[17]\<close> or cytosolic calcium \<open>y[2]\<close> makes a Nernst logarithm
  raise ValueError. For every parameter dictionary, time and 23-entry state with
  positive \<open>y[2]\<close> and \<open>y[17]\<close> the call returns, and whenever it returns the derivative
  has exactly 23 entries and its entry 3 is 0.
\<close>

theorem derivative_has_23_entries_and_slot_3_is_zero:
  "(length y = 23 \<and> 0 < y ! 2 \<and> 0 < y ! 17 \<longrightarrow>
      (\<exists>self' d_y. action_potential_diff_eq self t y = (self', Inr d_y)))
   \<and> (\<forall>self' d_y. action_potential_diff_eq self t y = (self', Inr d_y) \<longrightarrow>
         length d_y = 23 \<and> d_y ! 3 = 0)
   \<and> (length y = 23 \<and> (y ! 17 < 0 \<or> y ! 2 < 0) \<longrightarrow>
         snd (action_potential_diff_eq self t y) = Inl ValueError)"
proof (intro conjI impI allI)
  assume "length y = 23 \<and> 0 < y ! 2 \<and> 0 < y ! 17"
  then show "\<exists>self' d_y. action_potential_diff_eq self t y = (self', Inr d_y)"
    by (simp add: apd_returns)
next
  fix self' d_y
  assume r: "action_potential_diff_eq self t y = (self', Inr d_y)"
  show "length d_y = 23" by (simp add: apd_Inr_eq(2)[OF r] length_d_y_of)
  show "d_y ! 3 = 0" by (simp add: apd_Inr_eq(2)[OF r] d_y_of_3)
next
  assume a: "length y = 23 \<and> (y ! 17 < 0 \<or> y ! 2 < 0)"
  then have "17 < length y" by simp
  with a show "snd (action_potential_diff_eq self t y) = Inl ValueError"
    using apd_negative_sodium apd_negative_calcium by blast
qed

theorem derivative_has_23_entries_witness:
  "length y_initial_zero = 23 \<and> 0 < y_initial_zero ! 2 \<and> 0 < y_initial_zero ! 17
   \<and> (\<exists>self' d_y. action_potential_diff_eq (PaciModel_init None) 0 y_initial_zero
                      = (self', Inr d_y)
         \<and> length d_y = 23 \<and> d_y ! 3 = 0)
   \<and> length (y_initial_zero[2 := - 1]) = 23 \<and> y_initial_zero[2 := - 1] ! 2 < 0
   \<and> snd (action_potential_diff_eq (PaciModel_init None) 0 (y_initial_zero[2 := - 1]))
       = Inl ValueError"
proof -
  note th = derivative_has_23_entries_and_slot_3_is_zero
              [of y_initial_zero "PaciModel_init None" 0]
  from th y_initial_zero_facts obtain self' d_y where
    r: "action_potential_diff_eq (PaciModel_init None) 0 y_initial_zero = (self', Inr d_y)"
    by blast
  with th have "length d_y = 23 \<and> d_y ! 3 = 0" by blast
  with r have e: "\<exists>self' d_y. action_potential_diff_eq (PaciModel_init None) 0 y_initial_zero
                      = (self', Inr d_y) \<and> length d_y = 23 \<and> d_y ! 3 = 0"
    by blast
  have b: "length (y_initial_zero[2 := - 1]) = 23" "y_initial_zero[2 := - 1] ! 2 < 0"
    by (simp_all add: y_initial_zero_def)
  with derivative_has_23_entries_and_slot_3_is_zero
         [of "y_initial_zero[2 := - 1]" "PaciModel_init None" 0]
  have v: "snd (action_potential_diff_eq (PaciModel_init None) 0 (y_initial_zero[2 := - 1]))
           = Inl ValueError"
    by blast
  from y_initial_zero_facts e b v show ?thesis by (intro conjI)
qed

text \<open>
  The claim as stated fails at the 23-entry state \<open>y_initial_zero\<close> with \<open>y[17] = -1\<close>:
  \<open>math.log(151.0 / -1.0)\<close> raises ValueError and no derivative is returned.
\<close>

theorem negative_sodium_raises_counterexample:
  "length (y_initial_zero[17 := - 1]) = 23
   \<and> snd (action_potential_diff_eq (PaciModel_init None) 0 (y_initial_zero[17 := - 1]))
       = Inl ValueError"
  by (simp add: action_potential_diff_eq_def y_initial_zero_def py_log_def nao_millimolar_def)

subsection \<open>The gating variables\<close>

lemma f_ca_inf_pos: "0 < f_ca_inf y"
proof -
  have "0 \<le> (y ! 2 / 0.0006) ^ 8" by simp
  then have a: "0 < alpha_f_ca y"
    unfolding alpha_f_ca_def by (simp add: add_pos_nonneg)
  have b: "0 < beta_f_ca y"
    unfolding beta_f_ca_def by (simp add: add_pos_pos)
  have c: "0 < gamma_f_ca y"
    unfolding gamma_f_ca_def by (simp add: add_pos_pos)
  from a b c show ?thesis
    unfolding f_ca_inf_def by (simp add: add_pos_pos)
qed

lemma gates_depend_on_voltage:
  assumes "y' ! 0 = y ! 0"
  shows "d_infinity y' = d_infinity y" "tau_d y' = tau_d y"
    "f1_inf y' = f1_inf y"
    "f2_inf y' = f2_inf y" "tau_f2 y' = tau_f2 y"
    "xr1_inf y' = xr1_inf y" "tau_xr1 y' = tau_xr1 y"
    "xr2_infinity y' = xr2_infinity y" "tau_xr2 y' = tau_xr2 y"
    "xs_infinity y' = xs_infinity y" "tau_xs y' = tau_xs y"
    "h_inf y' = h_inf y" "tau_h y' = tau_h y"
    "j_inf y' = j_inf y" "tau_j y' = tau_j y"
    "m_inf y' = m_inf y" "tau_m y' = tau_m y"
    "xf_infinity y' = xf_infinity y" "tau_xf y' = tau_xf y"
    "q_inf y' = q_inf y" "tau_q y' = tau_q y"
    "r_inf y' = r_inf y" "tau_r y' = tau_r y"
    "m_inf_l y' = m_inf_l y" "tau_m_l y' = tau_m_l y"
    "h_inf_l y' = h_inf_l y"
  unfolding d_infinity_def tau_d_def alpha_d_def beta_d_def gamma_d_def f1_inf_def
    f2_inf_def tau_f2_def xr1_inf_def tau_xr1_def alpha_xr1_def beta_xr1_def
    xr2_infinity_def tau_xr2_def alpha_xr2_def beta_xr2_def
    xs_infinity_def tau_xs_def alpha_xs_def beta_xs_def
    h_inf_def tau_h_def alpha_h_def beta_h_def j_inf_def tau_j_def alpha_j_def beta_j_def
    m_inf_def tau_m_def alpha_m_def beta_m_def xf_infinity_def tau_xf_def
    q_inf_def tau_q_def r_inf_def tau_r_def m_inf_l_def tau_m_l_def alpha_m_l_def
    beta_m_l_def h_inf_l_def assms
  by (rule refl)+

lemma f_ca_inf_depends_on_calcium:
  "y' ! 2 = y ! 2 \<Longrightarrow> f_ca_inf y' = f_ca_inf y"
  by (simp add: f_ca_inf_def alpha_f_ca_def beta_f_ca_def gamma_f_ca_def)

lemma tau_f1_depends:
  "y' ! 0 = y ! 0 \<Longrightarrow> y' ! 2 = y ! 2 \<Longrightarrow> y' ! 5 = y ! 5 \<Longrightarrow> tau_f1 y' = tau_f1 y"
  by (simp add: tau_f1_def const_f1_def f1_inf_def)

lemma f1_inf_bounds: "0 < f1_inf y" "f1_inf y < 1"
  by (simp_all add: f1_inf_def add_pos_pos)

lemma tau_f1_const_f1:
  "y' ! 0 = y ! 0 \<Longrightarrow> tau_f1 y' * const_f1 y = tau_f1 y * const_f1 y'"
  by (simp add: tau_f1_def)

lemma tau_f1_pos: "0 < const_f1 y \<Longrightarrow> 0 < tau_f1 y"
proof -
  assume c: "0 < const_f1 y"
  have 1: "0 < 1102.5 * exp (- (((y ! 0 * 1000.0 + 27.0) ^ 2 / 15.0) ^ 2))"
    by simp
  have 2: "0 < 200.0 / (1.0 + exp ((13.0 - y ! 0 * 1000.0) / 10.0))"
    by (simp add: add_pos_pos)
  have 3: "0 < 180.0 / (1.0 + exp ((30.0 + y ! 0 * 1000.0) / 10.0))"
    by (simp add: add_pos_pos)
  have "0 < 20.0 + 1102.5 * exp (- (((y ! 0 * 1000.0 + 27.0) ^ 2 / 15.0) ^ 2))
             + 200.0 / (1.0 + exp ((13.0 - y ! 0 * 1000.0) / 10.0))
             + 180.0 / (1.0 + exp ((30.0 + y ! 0 * 1000.0) / 10.0))"
    using 1 2 3 by linarith
  with c show ?thesis
    unfolding tau_f1_def by (simp only: mult_pos_pos zero_less_divide_iff) simp
qed

text \<open>
  Claim C3, as amended. Whenever the evaluation returns, fourteen of the fifteen gates
  (d, f1, f2, Xr1, Xr2, Xs, h, j, m, Xf, q, r, m\_L, h\_L) have the derivative
  \<open>(steady_state - current_value) / time_constant\<close>. For thirteen of them the steady
  state and the time constant are functions of the voltage \<open>y[0]\<close> alone. For f1 the
  steady state is a function of the voltage, and the time constant a function of the
  voltage, of the cytosolic calcium \<open>y[2]\<close> and of the value \<open>y[5]\<close> of the gate itself:
  its factor \<open>const_f1\<close> is \<open>1 + 1433 (y[2] - 50e-6)\<close> while \<open>f1_inf > y[5]\<close> and 1
  otherwise. For fCa (entry 7) the steady state is a function of the calcium alone and
  the time constant is 0.002; its derivative follows the law only outside the region
  \<open>y[0] > -0.06 and f_ca_inf > y[7]\<close>, where the factor \<open>const_f_ca\<close> holds it at 0.
\<close>

theorem gating_derivatives_relax_to_steady_state:
  assumes "action_potential_diff_eq self t y = (self', Inr d_y)"
  shows "d_y ! 4 = (d_infinity y - y ! 4) / tau_d y
       \<and> d_y ! 5 = (f1_inf y - y ! 5) / tau_f1 y
       \<and> d_y ! 6 = (f2_inf y - y ! 6) / tau_f2 y
       \<and> d_y ! 8 = (xr1_inf y - y ! 8) / tau_xr1 y
       \<and> d_y ! 9 = (xr2_infinity y - y ! 9) / tau_xr2 y
       \<and> d_y ! 10 = (xs_infinity y - y ! 10) / tau_xs y
       \<and> d_y ! 11 = (h_inf y - y ! 11) / tau_h y
       \<and> d_y ! 12 = (j_inf y - y ! 12) / tau_j y
       \<and> d_y ! 13 = (m_inf y - y ! 13) / tau_m y
       \<and> d_y ! 14 = (xf_infinity y - y ! 14) / tau_xf y
       \<and> d_y ! 15 = (q_inf y - y ! 15) / tau_q y
       \<and> d_y ! 16 = (r_inf y - y ! 16) / tau_r y
       \<and> d_y ! 18 = (m_inf_l y - y ! 18) / tau_m_l y
       \<and> d_y ! 19 = (h_inf_l y - y ! 19) / tau_h_l
       \<and> d_y ! 7 = (if y ! 0 > - 0.06 \<and> f_ca_inf y > y ! 7 then 0
                    else (f_ca_inf y - y ! 7) / tau_f_ca)
       \<and> (y' ! 0 = y ! 0 \<longrightarrow>
             d_infinity y' = d_infinity y \<and> tau_d y' = tau_d y
           \<and> f1_inf y' = f1_inf y
           \<and> f2_inf y' = f2_inf y \<and> tau_f2 y' = tau_f2 y
           \<and> xr1_inf y' = xr1_inf y \<and> tau_xr1 y' = tau_xr1 y
           \<and> xr2_infinity y' = xr2_infinity y \<and> tau_xr2 y' = tau_xr2 y
           \<and> xs_infinity y' = xs_infinity y \<and> tau_xs y' = tau_xs y
           \<and> h_inf y' = h_inf y \<and> tau_h y' = tau_h y
           \<and> j_inf y' = j_inf y \<and> tau_j y' = tau_j y
           \<and> m_inf y' = m_inf y \<and> tau_m y' = tau_m y
           \<and> xf_infinity y' = xf_infinity y \<and> tau_xf y' = tau_xf y
           \<and> q_inf y' = q_inf y \<and> tau_q y' = tau_q y
           \<and> r_inf y' = r_inf y \<and> tau_r y' = tau_r y
           \<and> m_inf_l y' = m_inf_l y \<and> tau_m_l y' = tau_m_l y
           \<and> h_inf_l y' = h_inf_l y)
       \<and> tau_h_l = 0.2
       \<and> (y' ! 0 = y ! 0 \<and> y' ! 2 = y ! 2 \<and> y' ! 5 = y ! 5 \<longrightarrow> tau_f1 y' = tau_f1 y)
       \<and> tau_f1 y =
           (20.0
            + 1102.5 * exp (- (((y ! 0 * 1000.0 + 27.0) ^ 2 / 15.0) ^ 2))
            + 200.0 / (1.0 + exp ((13.0 - y ! 0 * 1000.0) / 10.0))
            + 180.0 / (1.0 + exp ((30.0 + y ! 0 * 1000.0) / 10.0)))
           * (if f1_inf y > y ! 5 then 1.0 + 1433.0 * (y ! 2 - 50.0 * (1.0 / 10 ^ 6))
              else 1.0)
           / 1000.0
       \<and> (y' ! 2 = y ! 2 \<longrightarrow> f_ca_inf y' = f_ca_inf y)
       \<and> tau_f_ca = 0.002"
proof -
  note d = apd_Inr_eq(2)[OF assms]
  have "d_y ! 7 = const_f_ca y * (f_ca_inf y - y ! 7) / tau_f_ca"
    by (simp only: d d_y_of_gates)
  then have fca: "d_y ! 7 = (if y ! 0 > - 0.06 \<and> f_ca_inf y > y ! 7 then 0
                        else (f_ca_inf y - y ! 7) / tau_f_ca)"
    by (simp add: const_f_ca_def)
  have law: "d_y ! 4 = (d_infinity y - y ! 4) / tau_d y
       \<and> d_y ! 5 = (f1_inf y - y ! 5) / tau_f1 y
       \<and> d_y ! 6 = (f2_inf y - y ! 6) / tau_f2 y
       \<and> d_y ! 8 = (xr1_inf y - y ! 8) / tau_xr1 y
       \<and> d_y ! 9 = (xr2_infinity y - y ! 9) / tau_xr2 y
       \<and> d_y ! 10 = (xs_infinity y - y ! 10) / tau_xs y
       \<and> d_y ! 11 = (h_inf y - y ! 11) / tau_h y
       \<and> d_y ! 12 = (j_inf y - y ! 12) / tau_j y
       \<and> d_y ! 13 = (m_inf y - y ! 13) / tau_m y
       \<and> d_y ! 14 = (xf_infinity y - y ! 14) / tau_xf y
       \<and> d_y ! 15 = (q_inf y - y ! 15) / tau_q y
       \<and> d_y ! 16 = (r_inf y - y ! 16) / tau_r y
       \<and> d_y ! 18 = (m_inf_l y - y ! 18) / tau_m_l y
       \<and> d_y ! 19 = (h_inf_l y - y ! 19) / tau_h_l"
    by (simp only: d d_y_of_gates simp_thms)
  have hl: "tau_h_l = 0.2"
    by (simp add: tau_h_l_def tau_i_na_l_ms_def)
  have f1: "tau_f1 y =
           (20.0
            + 1102.5 * exp (- (((y ! 0 * 1000.0 + 27.0) ^ 2 / 15.0) ^ 2))
            + 200.0 / (1.0 + exp ((13.0 - y ! 0 * 1000.0) / 10.0))
            + 180.0 / (1.0 + exp ((30.0 + y ! 0 * 1000.0) / 10.0)))
           * (if f1_inf y > y ! 5 then 1.0 + 1433.0 * (y ! 2 - 50.0 * (1.0 / 10 ^ 6))
              else 1.0)
           / 1000.0"
    by (simp add: tau_f1_def const_f1_def)
  have tca: "tau_f_ca = 0.002" by (simp add: tau_f_ca_def)
  show ?thesis
    using law fca hl f1 tca gates_depend_on_voltage[of y' y]
      tau_f1_depends[of y' y] f_ca_inf_depends_on_calcium[of y' y]
    by (intro conjI impI) (simp_all only: simp_thms)
qed

theorem gating_derivatives_witness:
  "y_initial_zero[11 := 0] ! 0 = y_initial_zero ! 0
   \<and> y_initial_zero[11 := 0] ! 2 = y_initial_zero ! 2
   \<and> y_initial_zero[11 := 0] ! 5 = y_initial_zero ! 5
   \<and> (\<exists>self' d_y.
         action_potential_diff_eq (PaciModel_init None) 0 y_initial_zero = (self', Inr d_y)
         \<and> d_y ! 11 = (h_inf y_initial_zero - y_initial_zero ! 11) / tau_h y_initial_zero
         \<and> d_y ! 7 = (f_ca_inf y_initial_zero - y_initial_zero ! 7) / tau_f_ca)
   \<and> h_inf (y_initial_zero[11 := 0]) = h_inf y_initial_zero
   \<and> tau_h (y_initial_zero[11 := 0]) = tau_h y_initial_zero
   \<and> tau_f1 (y_initial_zero[11 := 0]) = tau_f1 y_initial_zero
   \<and> f_ca_inf (y_initial_zero[11 := 0]) = f_ca_inf y_initial_zero"
proof -
  let ?y' = "y_initial_zero[11 := 0]"
  have r: "action_potential_diff_eq (PaciModel_init None) 0 y_initial_zero
           = (finished (PaciModel_init None) 0 y_initial_zero,
              Inr (d_y_of (PaciModel_init None) 0 y_initial_zero (e_na_of y_initial_zero)
                    (e_ca_of y_initial_zero) (e_ks_of y_initial_zero)))"
    by (rule apd_returns) (simp_all add: y_initial_zero_facts)
  have v: "\<not> y_initial_zero ! 0 > - 0.06"
    by (simp add: y_initial_zero_def)
  have s: "?y' ! 0 = y_initial_zero ! 0" "?y' ! 2 = y_initial_zero ! 2"
    "?y' ! 5 = y_initial_zero ! 5"
    by simp_all
  note th = gating_derivatives_relax_to_steady_state[OF r, of ?y']
  from th v r have e: "\<exists>self' d_y.
         action_potential_diff_eq (PaciModel_init None) 0 y_initial_zero = (self', Inr d_y)
         \<and> d_y ! 11 = (h_inf y_initial_zero - y_initial_zero ! 11) / tau_h y_initial_zero
         \<and> d_y ! 7 = (f_ca_inf y_initial_zero - y_initial_zero ! 7) / tau_f_ca"
    by (intro exI conjI) (assumption, simp_all)
  from th s have d: "h_inf ?y' = h_inf y_initial_zero" "tau_h ?y' = tau_h y_initial_zero"
    "tau_f1 ?y' = tau_f1 y_initial_zero" "f_ca_inf ?y' = f_ca_inf y_initial_zero"
    by blast+
  from s e d show ?thesis by (intro conjI)
qed

text \<open>
  The claim as stated fails twice. At \<open>y_initial_zero\<close> with \<open>y[0] = -0.05\<close> and
  \<open>y[7] = 0\<close> the evaluation returns, entry 7 of the derivative is 0, and
  \<open>(f_ca_inf - y[7]) / tau_f_ca\<close> is positive: fCa does not follow the law. And the time
  constant of f1 is no function of voltage and calcium: \<open>y_initial_zero\<close> with
  \<open>y[5] = 0\<close> and with \<open>y[5] = 1\<close> have the same voltage and calcium and different
  \<open>tau_f1\<close>.
\<close>

theorem calcium_gate_held_counterexample:
  "isl (snd (action_potential_diff_eq (PaciModel_init None) 0
               (y_initial_zero[0 := - 0.05, 7 := 0]))) = False
   \<and> projr (snd (action_potential_diff_eq (PaciModel_init None) 0
                   (y_initial_zero[0 := - 0.05, 7 := 0]))) ! 7 = 0
   \<and> 0 < (f_ca_inf (y_initial_zero[0 := - 0.05, 7 := 0])
           - y_initial_zero[0 := - 0.05, 7 := 0] ! 7) / tau_f_ca
   \<and> y_initial_zero[5 := 0] ! 0 = y_initial_zero[5 := 1] ! 0
   \<and> y_initial_zero[5 := 0] ! 2 = y_initial_zero[5 := 1] ! 2
   \<and> tau_f1 (y_initial_zero[5 := 0]) \<noteq> tau_f1 (y_initial_zero[5 := 1])"
proof -
  let ?y = "y_initial_zero[0 := - 0.05, 7 := 0]"
  have y: "23 \<le> length ?y" "0 < ?y ! 17" "0 < ?y ! 2" "?y ! 0 = - 0.05" "?y ! 7 = 0"
    by (simp_all add: y_initial_zero_def)
  have a: "- 0.06 < ?y ! 0" unfolding y(4) by simp
  have b: "?y ! 7 < f_ca_inf ?y" unfolding y(5) by (rule f_ca_inf_pos)
  have "const_f_ca ?y = (if True then 0.0 else 1.0)"
    unfolding const_f_ca_def by (simp only: a b simp_thms)
  then have c: "const_f_ca ?y = 0" by simp
  have "0 < f_ca_inf ?y - ?y ! 7" using b by simp
  then have p: "0 < (f_ca_inf ?y - ?y ! 7) / tau_f_ca"
    by (simp only: tau_f_ca_def zero_less_divide_iff) simp
  have r: "snd (action_potential_diff_eq (PaciModel_init None) 0 ?y)
           = Inr (d_y_of (PaciModel_init None) 0 ?y (e_na_of ?y) (e_ca_of ?y) (e_ks_of ?y))"
    by (simp only: apd_returns[OF y(1,2,3)] snd_conv)
  have z: "d_y_of (PaciModel_init None) 0 ?y (e_na_of ?y) (e_ca_of ?y) (e_ks_of ?y) ! 7 = 0"
    by (simp only: d_y_of_gates c mult_zero_left divide_eq_0_iff simp_thms)
  let ?a = "y_initial_zero[5 := 0]"
  let ?b = "y_initial_zero[5 := 1]"
  have s: "?a ! 0 = ?b ! 0" "?a ! 2 = ?b ! 2" by simp_all
  have g: "?a ! 5 = 0" "?b ! 5 = 1" "?a ! 2 = 0.0002"
    by (simp_all add: y_initial_zero_def)
  have ca: "const_f1 ?a = 1.21495"
    using f1_inf_bounds(1)[of ?a] by (simp add: const_f1_def g)
  have cb: "const_f1 ?b = 1"
    using f1_inf_bounds(2)[of ?b] by (simp add: const_f1_def g)
  have pb: "0 < tau_f1 ?b" by (rule tau_f1_pos) (simp add: cb)
  from tau_f1_const_f1[OF s(1)] have "tau_f1 ?a = tau_f1 ?b * 1.21495"
    by (simp add: ca cb)
  with pb have n: "tau_f1 ?a \<noteq> tau_f1 ?b" by simp
  from s n show ?thesis
    by (simp only: r z p sum.sel sum.disc simp_thms)
qed

subsection \<open>The voltage derivative\<close>

lemma finished_current_response_info:
  "self_current_response_info (finished self t y) =
     map_option (\<lambda>info. info\<lparr>currents := currents info
                  @ [current_timestep self t y (e_na_of y) (e_ca_of y) (e_ks_of y)]\<rparr>)
       (self_current_response_info self)"
  by (cases "self_current_response_info self") (simp_all add: finished_def recorded_def Let_def)

lemma finished_histories:
  "self_t (finished self t y) = self_t self @ [t]"
  "self_y_voltage (finished self t y) = self_y_voltage self @ [y ! 0]"
  "self_full_y (finished self t y) = self_full_y self @ [y]"
  "self_d_y_voltage (finished self t y) = self_d_y_voltage self
     @ [d_y_of self t y (e_na_of y) (e_ca_of y) (e_ks_of y) ! 0]"
  "self_default_parameters (finished self t y) = self_default_parameters self"
  by (cases "self_current_response_info self"; simp add: finished_def recorded_def Let_def)+



subsection \<open>The voltage-clamp driver\<close>

lemma apd_records_voltage:
  assumes "y \<noteq> []"
  shows "self_y_voltage (fst (action_potential_diff_eq self t y)) = self_y_voltage self @ [y ! 0]"
    and "self_t (fst (action_potential_diff_eq self t y)) = self_t self @ [t]"
    and "self_full_y (fst (action_potential_diff_eq self t y)) = self_full_y self @ [y]"
  using assms unfolding action_potential_diff_eq_def Let_def
  by (simp_all split: sum.split option.split)

lemma cumulative_durations_Nil: "cumulative_durations c sts = [] \<longleftrightarrow> sts = []"
  by (cases sts) simp_all

lemma last_cumulative_durations:
  "sts \<noteq> [] \<Longrightarrow>
     last (cumulative_durations c sts) = c + sum_list (map VoltageClampStep.duration sts)"
proof (induction sts arbitrary: c)
  case Nil
  then show ?case by simp
next
  case (Cons s sts)
  show ?case
  proof (cases "sts = []")
    case True
    then show ?thesis by simp
  next
    case False
    with Cons.IH[of "c + VoltageClampStep.duration s"] show ?thesis
      by (simp add: cumulative_durations_Nil)
  qed
qed

lemma span_end:
  "sts \<noteq> [] \<Longrightarrow>
     py_last (voltage_change_endpoints (VoltageClampProtocol sts))
       = Inr (sum_list (map VoltageClampStep.duration sts))"
  by (simp add: py_last_def voltage_change_endpoints_def cumulative_durations_Nil
      last_cumulative_durations)

text \<open>
  Claim C5. When the schedule gives the voltage \<open>v\<close> at \<open>t\<close>, the voltage-clamp forcing
  function is the state derivative at the state with entry 0 replaced by \<open>v\<close>: the
  equations and the recorded voltage sample see \<open>v\<close>, whatever entry 0 held. For a
  schedule with at least one step the integrator is called on the span from 0 to the sum
  of the step durations, from \<open>y_initial\<close>.
\<close>

theorem voltage_clamp_forces_scheduled_voltage:
  "(get_voltage_at_time ext p t = Inr v \<and> y \<noteq> [] \<longrightarrow>
      voltage_clamp ext p self t y = action_potential_diff_eq self t (y[0 := v])
      \<and> y[0 := v] ! 0 = v
      \<and> voltage_clamp ext p self t (y[0 := w]) = voltage_clamp ext p self t y
      \<and> self_y_voltage (fst (voltage_clamp ext p self t y)) = self_y_voltage self @ [v])
   \<and> (sts \<noteq> [] \<longrightarrow>
        generate_response ext integrator self (VoltageClampProtocol sts) =
          (case solve_ivp
                  (integrator
                     \<lparr>t_span = (0, sum_list (map VoltageClampStep.duration sts)),
                      y0 = y_initial, ivp_method = ''BDF'', max_step = 1 / 10 ^ 3\<rparr>)
                  (voltage_clamp ext (VoltageClampProtocol sts))
                  ((reset self)\<lparr>self_current_response_info :=
                     Some (new_CurrentResponseInfo (Some (VoltageClampProtocol sts)))\<rparr>) of
             (self', r) \<Rightarrow>
               (self', try_except_ValueError r
                  \<lparr>trace_t = self_t self', trace_y = self_y_voltage self',
                   trace_pacing_info = None,
                   trace_current_response_info = self_current_response_info self'\<rparr>)))"
proof (intro conjI impI)
  assume a: "get_voltage_at_time ext p t = Inr v \<and> y \<noteq> []"
  then have ne: "y[0 := v] \<noteq> []" and nz: "0 < length y" by simp_all
  show 1: "voltage_clamp ext p self t y = action_potential_diff_eq self t (y[0 := v])"
    using a by (simp add: voltage_clamp_def)
  show "y[0 := v] ! 0 = v" using nz by simp
  show "voltage_clamp ext p self t (y[0 := w]) = voltage_clamp ext p self t y"
    using a by (simp add: voltage_clamp_def)
  show "self_y_voltage (fst (voltage_clamp ext p self t y)) = self_y_voltage self @ [v]"
    using nz by (simp add: 1 apd_records_voltage(1)[OF ne])
next
  assume "sts \<noteq> []"
  then show "generate_response ext integrator self (VoltageClampProtocol sts) =
          (case solve_ivp
                  (integrator
                     \<lparr>t_span = (0, sum_list (map VoltageClampStep.duration sts)),
                      y0 = y_initial, ivp_method = ''BDF'', max_step = 1 / 10 ^ 3\<rparr>)
                  (voltage_clamp ext (VoltageClampProtocol sts))
                  ((reset self)\<lparr>self_current_response_info :=
                     Some (new_CurrentResponseInfo (Some (VoltageClampProtocol sts)))\<rparr>) of
             (self', r) \<Rightarrow>
               (self', try_except_ValueError r
                  \<lparr>trace_t = self_t self', trace_y = self_y_voltage self',
                   trace_pacing_info = None,
                   trace_current_response_info = self_current_response_info self'\<rparr>))"
    by (simp add: generate_response_def span_end BDF_args_def Let_def)
qed

theorem voltage_clamp_witness:
  "get_voltage_at_time (constant_externals (- 0.08) False False False)
       (VoltageClampProtocol [VoltageClampStep (- 0.08) 0.1, VoltageClampStep 0.02 0.15]) 0
     = Inr (- 0.08)
   \<and> y_initial \<noteq> []
   \<and> self_y_voltage (fst (voltage_clamp (constant_externals (- 0.08) False False False)
        (VoltageClampProtocol [VoltageClampStep (- 0.08) 0.1, VoltageClampStep 0.02 0.15])
        (PaciModel_init None) 0 y_initial)) = [- 0.08]
   \<and> [VoltageClampStep (- 0.08) 0.1, VoltageClampStep 0.02 0.15] \<noteq> []
   \<and> snd (generate_response (constant_externals (- 0.08) False False False)
             (\<lambda>args. if t_span args = (0, 0.25) \<and> y0 args = y_initial then Return 0 else Raise IndexError)
             (PaciModel_init None)
             (VoltageClampProtocol [VoltageClampStep (- 0.08) 0.1, VoltageClampStep 0.02 0.15]))
       = Inr (Some \<lparr>trace_t = [], trace_y = [], trace_pacing_info = None,
                     trace_current_response_info =
                       Some (new_CurrentResponseInfo (Some (VoltageClampProtocol
                         [VoltageClampStep (- 0.08) 0.1, VoltageClampStep 0.02 0.15])))\<rparr>)"
proof -
  let ?ext = "constant_externals (- 0.08) False False False"
  let ?sts = "[VoltageClampStep (- 0.08) 0.1, VoltageClampStep 0.02 0.15]"
  let ?ig = "\<lambda>args. if t_span args = (0, 0.25) \<and> y0 args = y_initial
                    then Return 0 else Raise IndexError"
  note th = voltage_clamp_forces_scheduled_voltage
    [of ?ext "VoltageClampProtocol ?sts" 0 "- 0.08" y_initial "PaciModel_init None" 0 ?sts ?ig]
  have h1: "get_voltage_at_time ?ext (VoltageClampProtocol ?sts) 0 = Inr (- 0.08)"
    by (simp add: constant_externals_def)
  have h2: "y_initial \<noteq> []" by (simp add: y_initial_def)
  have h3: "?sts \<noteq> []" by simp
  from th h1 h2 have c1: "self_y_voltage (fst (voltage_clamp ?ext (VoltageClampProtocol ?sts)
        (PaciModel_init None) 0 y_initial)) = self_y_voltage (PaciModel_init None) @ [- 0.08]"
    by blast
  from th h3 have c2: "generate_response ?ext ?ig (PaciModel_init None) (VoltageClampProtocol ?sts) =
          (case solve_ivp
                  (?ig
                     \<lparr>t_span = (0, sum_list (map VoltageClampStep.duration ?sts)),
                      y0 = y_initial, ivp_method = ''BDF'', max_step = 1 / 10 ^ 3\<rparr>)
                  (voltage_clamp ?ext (VoltageClampProtocol ?sts))
                  ((reset (PaciModel_init None))\<lparr>self_current_response_info :=
                     Some (new_CurrentResponseInfo (Some (VoltageClampProtocol ?sts)))\<rparr>) of
             (self', r) \<Rightarrow>
               (self', try_except_ValueError r
                  \<lparr>trace_t = self_t self', trace_y = self_y_voltage self',
                   trace_pacing_info = None,
                   trace_current_response_info = self_current_response_info self'\<rparr>))"
    by blast
  have c1': "self_y_voltage (fst (voltage_clamp ?ext (VoltageClampProtocol ?sts)
        (PaciModel_init None) 0 y_initial)) = [- 0.08]"
    unfolding c1 by (simp add: PaciModel_init_def)
  have c2': "snd (generate_response ?ext ?ig (PaciModel_init None) (VoltageClampProtocol ?sts))
       = Inr (Some \<lparr>trace_t = [], trace_y = [], trace_pacing_info = None,
                     trace_current_response_info =
                       Some (new_CurrentResponseInfo (Some (VoltageClampProtocol ?sts)))\<rparr>)"
    unfolding c2 by (simp add: PaciModel_init_def reset_def try_except_ValueError_def)
  from h1 h2 h3 c1' c2' show ?thesis by (intro conjI)
qed

subsection \<open>The irregular-pacing driver\<close>

lemma y_initial_facts:
  "23 \<le> length y_initial" "0 < y_initial ! 17" "0 < y_initial ! 2"
  by (simp_all add: y_initial_def)

lemma irregular_pacing_returns:
  assumes "action_potential_diff_eq self t y = (self', Inr d_y)"
  shows "irregular_pacing ext protocol (self, pacing_info, offset_times) t y =
           (case apd_90_block ext (peak_block ext self' pacing_info t y, offset_times) t y of
              (info, offsets) \<Rightarrow>
                ((self', info, offsets), Inr (stimulation_block ext protocol info t d_y)))"
  by (simp add: irregular_pacing_def assms Let_def split: prod.split)

text \<open>
  Claim C6. When the state derivative has returned and the detector signals a peak at
  time \<open>t\<close> and voltage \<open>y[0]\<close>, the peak block appends \<open>t\<close> to the peak list and sets
  the pending 90\%-repolarization voltage to \<open>y[0] - 0.9 * |AVG_AP_START_VOLTAGE - y[0]|\<close>,
  leaving the rest of the pacing record as it was; the APD90 detection and the
  stimulation decision of the same evaluation work on that record.
\<close>

theorem peak_detection_records_peak_and_target:
  assumes "action_potential_diff_eq self t y = (self', Inr d_y)"
    and "detect_peak ext pacing_info (self_t self') (y ! 0) (self_d_y_voltage self')"
  shows "peak_block ext self' pacing_info t y =
           pacing_info\<lparr>peaks := peaks pacing_info @ [t],
                        apd_90_end_voltage :=
                          y ! 0 - 0.9 * \<bar>AVG_AP_START_VOLTAGE ext - y ! 0\<bar>\<rparr>
       \<and> irregular_pacing ext protocol (self, pacing_info, offset_times) t y =
           (case apd_90_block ext
                   (pacing_info\<lparr>peaks := peaks pacing_info @ [t],
                                 apd_90_end_voltage :=
                                   y ! 0 - 0.9 * \<bar>AVG_AP_START_VOLTAGE ext - y ! 0\<bar>\<rparr>,
                    offset_times) t y of
              (info, offsets) \<Rightarrow>
                ((self', info, offsets), Inr (stimulation_block ext protocol info t d_y)))"
proof -
  have p: "peak_block ext self' pacing_info t y =
           pacing_info\<lparr>peaks := peaks pacing_info @ [t],
                        apd_90_end_voltage :=
                          y ! 0 - 0.9 * \<bar>AVG_AP_START_VOLTAGE ext - y ! 0\<bar>\<rparr>"
    using assms(2) by (simp add: peak_block_def Let_def)
  show ?thesis
    using irregular_pacing_returns[OF assms(1), of ext protocol pacing_info offset_times]
    by (simp only: p simp_thms)
qed

theorem peak_detection_witness:
  "detect_peak (constant_externals 0 True False False)
     (new_IrregularPacingInfo (constant_externals 0 True False False)) [0.5]
     (y_initial ! 0) [] = True
   \<and> isl (snd (irregular_pacing (constant_externals 0 True False False)
                 (IrregularPacingProtocol 3 [0.6, 0.4] 0) 
                 (PaciModel_init None,
                  new_IrregularPacingInfo (constant_externals 0 True False False), [0.6, 0.4])
                 0.5 y_initial)) = False
   \<and> peaks (fst (snd (fst (irregular_pacing (constant_externals 0 True False False)
                 (IrregularPacingProtocol 3 [0.6, 0.4] 0)
                 (PaciModel_init None,
                  new_IrregularPacingInfo (constant_externals 0 True False False), [0.6, 0.4])
                 0.5 y_initial)))) = [0.5]
   \<and> apd_90_end_voltage (fst (snd (fst (irregular_pacing (constant_externals 0 True False False)
                 (IrregularPacingProtocol 3 [0.6, 0.4] 0)
                 (PaciModel_init None,
                  new_IrregularPacingInfo (constant_externals 0 True False False), [0.6, 0.4])
                 0.5 y_initial))))
       = y_initial ! 0 - 0.9 * \<bar>- 0.075 - y_initial ! 0\<bar>"
proof -
  let ?ext = "constant_externals 0 True False False"
  let ?m = "PaciModel_init None"
  let ?p = "IrregularPacingProtocol 3 [0.6, 0.4] 0"
  have r: "action_potential_diff_eq ?m 0.5 y_initial
           = (finished ?m 0.5 y_initial,
              Inr (d_y_of ?m 0.5 y_initial (e_na_of y_initial) (e_ca_of y_initial)
                     (e_ks_of y_initial)))"
    by (rule apd_returns) (rule y_initial_facts)+
  have d: "detect_peak ?ext (new_IrregularPacingInfo ?ext) ts v ds" for ts v ds
    by (simp add: constant_externals_def)
  note th = peak_detection_records_peak_and_target[OF r d, of ?p "[0.6, 0.4]"]
  have a: "\<not> detect_apd_90 ?ext info v" for info v
    by (simp add: constant_externals_def)
  have e: "AVG_AP_START_VOLTAGE ?ext = - 0.075"
          "peaks (new_IrregularPacingInfo ?ext) = []"
    by (simp_all add: constant_externals_def)
  show ?thesis
    using th[THEN conjunct2] d by (simp add: apd_90_block_def a e)
qed

text \<open>
  Claim C7. When the state derivative has returned and an APD90 is detected at time
  \<open>t\<close>, the driver returns a derivative (no exception leaves it). With no offset left
  the pacing record is exactly the one \<open>add_apd_90(t)\<close> produced: the APD90 time is
  recorded, no stimulation is appended, and the generator stays exhausted. With an
  offset left, exactly one stimulation \<open>t + offset\<close> is appended for the first
  remaining offset, which is consumed.
\<close>

theorem apd_90_detection_schedules_next_stimulation:
  assumes "action_potential_diff_eq self t y = (self', Inr d_y)"
    and "detect_apd_90 ext (peak_block ext self' pacing_info t y) (y ! 0)"
  shows "irregular_pacing ext protocol (self, pacing_info, offset_times) t y =
           (let info = add_apd_90 ext (peak_block ext self' pacing_info t y) t in
            case offset_times of
              [] \<Rightarrow> ((self', info, []), Inr (stimulation_block ext protocol info t d_y))
            | offset # rest \<Rightarrow>
                ((self', info\<lparr>stimulations := stimulations info @ [t + offset]\<rparr>, rest),
                 Inr (stimulation_block ext protocol
                        (info\<lparr>stimulations := stimulations info @ [t + offset]\<rparr>) t d_y)))"
  using assms(2)
  by (simp add: irregular_pacing_returns[OF assms(1)] apd_90_block_def Let_def
      split: list.split)

theorem apd_90_detection_witness:
  "isl (snd (irregular_pacing (constant_externals 0 False True False)
               (IrregularPacingProtocol 3 [] 0)
               (PaciModel_init None,
                new_IrregularPacingInfo (constant_externals 0 False True False), [])
               1 y_initial)) = False
   \<and> snd (fst (irregular_pacing (constant_externals 0 False True False)
               (IrregularPacingProtocol 3 [] 0)
               (PaciModel_init None,
                new_IrregularPacingInfo (constant_externals 0 False True False), [])
               1 y_initial))
       = (\<lparr>peaks = [], apd_90s = [1], stimulations = [], apd_90_end_voltage = - 1\<rparr>, [])
   \<and> isl (snd (irregular_pacing (constant_externals 0 False True False)
               (IrregularPacingProtocol 3 [0.6, 0.4] 0)
               (PaciModel_init None,
                new_IrregularPacingInfo (constant_externals 0 False True False), [0.6, 0.4])
               1 y_initial)) = False
   \<and> snd (fst (irregular_pacing (constant_externals 0 False True False)
               (IrregularPacingProtocol 3 [0.6, 0.4] 0)
               (PaciModel_init None,
                new_IrregularPacingInfo (constant_externals 0 False True False), [0.6, 0.4])
               1 y_initial))
       = (\<lparr>peaks = [], apd_90s = [1], stimulations = [1.6], apd_90_end_voltage = - 1\<rparr>,
          [0.4])"
proof -
  let ?ext = "constant_externals 0 False True False"
  let ?m = "PaciModel_init None"
  have r: "action_potential_diff_eq ?m 1 y_initial
           = (finished ?m 1 y_initial,
              Inr (d_y_of ?m 1 y_initial (e_na_of y_initial) (e_ca_of y_initial)
                     (e_ks_of y_initial)))"
    by (rule apd_returns) (rule y_initial_facts)+
  have d: "detect_apd_90 ?ext info v" for info v
    by (simp add: constant_externals_def)
  have p: "peak_block ?ext self info t y = info" for self info t y
    by (simp add: peak_block_def constant_externals_def)
  have n: "add_apd_90 ?ext (new_IrregularPacingInfo ?ext) 1
           = \<lparr>peaks = [], apd_90s = [1], stimulations = [], apd_90_end_voltage = - 1\<rparr>"
    by (simp add: constant_externals_def)
  note exhausted = apd_90_detection_schedules_next_stimulation
      [OF r d, of "IrregularPacingProtocol 3 [] 0" "new_IrregularPacingInfo ?ext" "[]"]
  note pending = apd_90_detection_schedules_next_stimulation
      [OF r d, of "IrregularPacingProtocol 3 [0.6, 0.4] 0" "new_IrregularPacingInfo ?ext"
          "[0.6, 0.4]"]
  show ?thesis
    unfolding exhausted pending
    by (simp add: Let_def p n)
qed

subsection \<open>generate\_response\<close>

lemma try_except_ValueError_cases:
  "try_except_ValueError (Inl ValueError) tr = Inr None"
  "e \<noteq> ValueError \<Longrightarrow> try_except_ValueError (Inl e) tr = Inl e"
  "try_except_ValueError (Inr status) tr = Inr (Some tr)"
  "try_except_ValueError r tr \<noteq> Inl ValueError"
  by (auto simp: try_except_ValueError_def split: sum.split)

lemma generate_response_outcome:
  "solver_outcome ext integrator self protocol = Some r \<Longrightarrow>
     \<exists>tr. snd (generate_response ext integrator self protocol) = try_except_ValueError r tr"
  by (cases protocol)
     (auto simp: solver_outcome_def generate_response_def Let_def span_end
           split: prod.split if_splits)

text \<open>
  Claim C9. For an object of none of the three protocol classes the call returns
  \<open>None\<close>: nothing is raised, and the result and the object left behind are the same
  for every integrator, the histories empty, so the integrator has not been asked. The
  value returned is the one a ValueError of the integrator gives.
\<close>

theorem unrecognized_protocol_returns_None:
  "generate_response ext integrator self OtherProtocol = (reset self, Inr None)
   \<and> self_t (reset self) = [] \<and> self_y_voltage (reset self) = []
   \<and> snd (generate_response ext (raises ValueError) self (SingleActionPotentialProtocol d))
       = snd (generate_response ext integrator self OtherProtocol)"
  by (simp add: generate_response_def reset_def raises_def Let_def try_except_ValueError_def)

text \<open>
  Claim C1, as amended. For each of the three protocol variants, when the call of the
  integrator is left by a ValueError, raised by the integrator or by the forcing
  function under it, \<open>generate_response\<close> returns \<open>None\<close>, and no ValueError ever leaves
  \<open>generate_response\<close>. An exception of another class leaves it as it is, and when the
  integrator returns, whatever status it reports, a Trace is returned.
\<close>

theorem ValueError_of_the_integrator_gives_None:
  "(solver_outcome ext integrator self protocol = Some (Inl ValueError) \<longrightarrow>
      snd (generate_response ext integrator self protocol) = Inr None)
   \<and> (solver_outcome ext integrator self protocol = Some (Inl e) \<and> e \<noteq> ValueError \<longrightarrow>
        snd (generate_response ext integrator self protocol) = Inl e)
   \<and> (solver_outcome ext integrator self protocol = Some (Inr status) \<longrightarrow>
        (\<exists>tr. snd (generate_response ext integrator self protocol) = Inr (Some tr)))
   \<and> snd (generate_response ext integrator self protocol) \<noteq> Inl ValueError"
proof (intro conjI impI)
  assume "solver_outcome ext integrator self protocol = Some (Inl ValueError)"
  from generate_response_outcome[OF this]
  show "snd (generate_response ext integrator self protocol) = Inr None"
    by (auto simp: try_except_ValueError_cases)
next
  assume a: "solver_outcome ext integrator self protocol = Some (Inl e) \<and> e \<noteq> ValueError"
  from generate_response_outcome[OF a[THEN conjunct1]] a
  show "snd (generate_response ext integrator self protocol) = Inl e"
    by (auto simp: try_except_ValueError_cases)
next
  assume "solver_outcome ext integrator self protocol = Some (Inr status)"
  from generate_response_outcome[OF this]
  show "\<exists>tr. snd (generate_response ext integrator self protocol) = Inr (Some tr)"
    by (auto simp: try_except_ValueError_cases)
next
  show "snd (generate_response ext integrator self protocol) \<noteq> Inl ValueError"
    by (cases protocol)
       (auto simp: generate_response_def Let_def try_except_ValueError_cases py_last_def
             split: prod.split sum.split if_splits)
qed

lemma solve_ivp_evaluates_once:
  "solve_ivp (evaluates_once t y status args) f s =
     (case f s t y of (s', Inl e) \<Rightarrow> (s', Inl e) | (s', Inr d_y) \<Rightarrow> (s', Inr status))"
  by (simp add: evaluates_once_def split: prod.split sum.split)

theorem ValueError_of_the_integrator_witness:
  "solver_outcome (constant_externals 0 False False False) (raises ValueError)
       (PaciModel_init None) (IrregularPacingProtocol 3 [0.6, 0.4] 0) = Some (Inl ValueError)
   \<and> snd (generate_response (constant_externals 0 False False False) (raises ValueError)
            (PaciModel_init None) (IrregularPacingProtocol 3 [0.6, 0.4] 0)) = Inr None
   \<and> solver_outcome (constant_externals 0 False False False)
       (evaluates_once 0 (y_initial_zero[17 := - 1]) 0)
       (PaciModel_init None) (SingleActionPotentialProtocol 0.4) = Some (Inl ValueError)
   \<and> snd (generate_response (constant_externals 0 False False False)
            (evaluates_once 0 (y_initial_zero[17 := - 1]) 0)
            (PaciModel_init None) (SingleActionPotentialProtocol 0.4)) = Inr None
   \<and> solver_outcome (constant_externals 0 False False False) (raises ZeroDivisionError)
       (PaciModel_init None) (VoltageClampProtocol [VoltageClampStep (- 0.08) 0.1])
       = Some (Inl ZeroDivisionError)
   \<and> snd (generate_response (constant_externals 0 False False False) (raises ZeroDivisionError)
            (PaciModel_init None) (VoltageClampProtocol [VoltageClampStep (- 0.08) 0.1]))
       = Inl ZeroDivisionError
   \<and> solver_outcome (constant_externals 0 False False False) (returns_status 0)
       (PaciModel_init None) (SingleActionPotentialProtocol 0.4) = Some (Inr 0)
   \<and> (\<exists>tr. snd (generate_response (constant_externals 0 False False False) (returns_status 0)
                  (PaciModel_init None) (SingleActionPotentialProtocol 0.4)) = Inr (Some tr))"
proof -
  let ?ext = "constant_externals 0 False False False"
  let ?m = "PaciModel_init None"
  have h1: "solver_outcome ?ext (raises ValueError) ?m (IrregularPacingProtocol 3 [0.6, 0.4] 0)
            = Some (Inl ValueError)"
    by (simp add: solver_outcome_def raises_def)
  have bad: "17 < length (y_initial_zero[17 := - 1])" "y_initial_zero[17 := - 1] ! 17 < 0"
    by (simp_all add: y_initial_zero_def)
  have e: "action_potential_diff_eq
             ((reset ?m)\<lparr>self_current_response_info := Some (new_CurrentResponseInfo None)\<rparr>)
             0 (y_initial_zero[17 := - 1])
           = (fst (action_potential_diff_eq
                ((reset ?m)\<lparr>self_current_response_info := Some (new_CurrentResponseInfo None)\<rparr>)
                0 (y_initial_zero[17 := - 1])), Inl ValueError)"
    using apd_negative_sodium[OF bad,
        of "(reset ?m)\<lparr>self_current_response_info := Some (new_CurrentResponseInfo None)\<rparr>" 0]
    by (metis prod.collapse)
  have h2: "solver_outcome ?ext (evaluates_once 0 (y_initial_zero[17 := - 1]) 0) ?m
              (SingleActionPotentialProtocol 0.4) = Some (Inl ValueError)"
    unfolding solver_outcome_def solve_ivp_evaluates_once single_action_potential_def
    by (subst e) simp
  have h3: "solver_outcome ?ext (raises ZeroDivisionError) ?m
              (VoltageClampProtocol [VoltageClampStep (- 0.08) 0.1]) = Some (Inl ZeroDivisionError)"
    by (simp add: solver_outcome_def raises_def)
  have h4: "solver_outcome ?ext (returns_status 0) ?m (SingleActionPotentialProtocol 0.4)
            = Some (Inr 0)"
    by (simp add: solver_outcome_def returns_status_def)
  note c1 = ValueError_of_the_integrator_gives_None
     [of ?ext "raises ValueError" ?m "IrregularPacingProtocol 3 [0.6, 0.4] 0",
      THEN conjunct1, rule_format, OF h1]
  note c2 = ValueError_of_the_integrator_gives_None
     [of ?ext "evaluates_once 0 (y_initial_zero[17 := - 1]) 0" ?m
         "SingleActionPotentialProtocol 0.4", THEN conjunct1, rule_format, OF h2]
  have ne: "ZeroDivisionError \<noteq> ValueError" by simp
  note c3 = ValueError_of_the_integrator_gives_None
     [of ?ext "raises ZeroDivisionError" ?m "VoltageClampProtocol [VoltageClampStep (- 0.08) 0.1]"
         ZeroDivisionError,
      THEN conjunct2, THEN conjunct1, rule_format, OF conjI[OF h3 ne]]
  note c4 = ValueError_of_the_integrator_gives_None
     [of ?ext "returns_status 0" ?m "SingleActionPotentialProtocol 0.4" _ 0,
      THEN conjunct2, THEN conjunct2, THEN conjunct1, rule_format, OF h4]
  from h1 c1 h2 c2 h3 c3 h4 c4 show ?thesis by (intro conjI)
qed

text \<open>
  The claim as stated fails when the integrator reports the failure in its result: it
  evaluates the forcing function once at the initial state and returns with status
  \<open>-1\<close> (a failed integration step); \<open>generate_response\<close> drops the result and returns
  a Trace of the one sample recorded, not \<open>None\<close>.
\<close>

theorem failed_step_status_counterexample:
  "isl (snd (generate_response (constant_externals 0 False False False)
               (evaluates_once 0 y_initial_zero (- 1)) (PaciModel_init None)
               (SingleActionPotentialProtocol 0.4))) = False
   \<and> map_option trace_t (projr (snd (generate_response (constant_externals 0 False False False)
               (evaluates_once 0 y_initial_zero (- 1)) (PaciModel_init None)
               (SingleActionPotentialProtocol 0.4)))) = Some [0]
   \<and> map_option trace_y (projr (snd (generate_response (constant_externals 0 False False False)
               (evaluates_once 0 y_initial_zero (- 1)) (PaciModel_init None)
               (SingleActionPotentialProtocol 0.4)))) = Some [- 0.070]"
proof -
  have y: "23 \<le> length y_initial_zero" "0 < y_initial_zero ! 17" "0 < y_initial_zero ! 2"
    by (simp_all add: y_initial_zero_facts)
  have v: "y_initial_zero ! 0 = - 0.070"
    by (simp add: y_initial_zero_def)
  show ?thesis
    by (simp add: generate_response_def Let_def solve_ivp_evaluates_once
        single_action_potential_def apd_returns[OF y] try_except_ValueError_def
        finished_histories reset_def PaciModel_init_def v)
qed

subsection \<open>Two runs of one object\<close>

lemma single_action_potential_run_once:
  assumes "23 \<le> length y" "0 < y ! 17" "0 < y ! 2"
  shows "fst (generate_response ext (evaluates_once t y status) self
                (SingleActionPotentialProtocol d))
         = finished ((reset self)\<lparr>self_current_response_info :=
                       Some (new_CurrentResponseInfo None)\<rparr>) t y"
  by (simp add: generate_response_def Let_def solve_ivp_evaluates_once
      single_action_potential_def apd_returns[OF assms])

lemma irregular_pacing_run_once:
  assumes "23 \<le> length y" "0 < y ! 17" "0 < y ! 2"
  shows "fst (generate_response ext (evaluates_once t y status) self
                (IrregularPacingProtocol d offsets amplitude))
         = finished (reset self) t y"
  by (simp add: generate_response_def Let_def solve_ivp_evaluates_once
      irregular_pacing_returns[OF apd_returns[OF assms]] split: prod.split)

text \<open>
  Claim C8 fails on the code. One object runs the single-action-potential protocol and
  then the irregular-pacing protocol, the integrator evaluating the forcing function
  once in each run. The second run starts with empty time and voltage histories, but
  \<open>self.current_response_info\<close> still holds the snapshot of the first run, and the
  second run appends its own after it.
\<close>

theorem irregular_pacing_run_keeps_earlier_current_records:
  "map_option currents (self_current_response_info
     (fst (generate_response (constant_externals 0 False False False)
             (evaluates_once 0 y_initial_zero 0) (PaciModel_init None)
             (SingleActionPotentialProtocol 0.4))))
     = Some [current_timestep (PaciModel_init None) 0 y_initial_zero
               (e_na_of y_initial_zero) (e_ca_of y_initial_zero) (e_ks_of y_initial_zero)]
   \<and> self_t (fst (generate_response (constant_externals 0 False False False)
        (evaluates_once 0 y_initial 0)
        (fst (generate_response (constant_externals 0 False False False)
                (evaluates_once 0 y_initial_zero 0) (PaciModel_init None)
                (SingleActionPotentialProtocol 0.4)))
        (IrregularPacingProtocol 3 [0.6] 0))) = [0]
   \<and> map_option currents (self_current_response_info
        (fst (generate_response (constant_externals 0 False False False)
                (evaluates_once 0 y_initial 0)
                (fst (generate_response (constant_externals 0 False False False)
                        (evaluates_once 0 y_initial_zero 0) (PaciModel_init None)
                        (SingleActionPotentialProtocol 0.4)))
                (IrregularPacingProtocol 3 [0.6] 0))))
     = Some [current_timestep (PaciModel_init None) 0 y_initial_zero
               (e_na_of y_initial_zero) (e_ca_of y_initial_zero) (e_ks_of y_initial_zero),
             current_timestep (PaciModel_init None) 0 y_initial
               (e_na_of y_initial) (e_ca_of y_initial) (e_ks_of y_initial)]"
proof -
  have z: "23 \<le> length y_initial_zero" "0 < y_initial_zero ! 17" "0 < y_initial_zero ! 2"
    by (simp_all add: y_initial_zero_facts)
  show ?thesis
    unfolding single_action_potential_run_once[OF z] irregular_pacing_run_once[OF y_initial_facts]
    by (auto simp: finished_current_response_info finished_histories
        reset_def new_CurrentResponseInfo_def intro!: current_timestep_cong)
qed

subsection \<open>generate\_trace\<close>

lemma assign_new_params_fold:
  "\<forall>i\<in>set indices. i < length tps \<Longrightarrow>
     assign_new_params tps ps indices m
       = Inr (fold (\<lambda>i m. m(name (tps ! i) \<mapsto> ps ! i)) indices m)"
  by (induction indices arbitrary: m) simp_all

lemma fold_assign_other:
  "n \<le> length tps \<Longrightarrow> x \<notin> name ` set tps \<Longrightarrow>
     fold (\<lambda>i m. m(name (tps ! i) \<mapsto> ps ! i)) [0..<n] m x = m x"
proof (induction n)
  case 0
  then show ?case by simp
next
  case (Suc n)
  then have "name (tps ! n) \<in> name ` set tps" by simp
  with Suc show ?case by auto
qed

lemma fold_assign_last:
  "i < n \<Longrightarrow> (\<forall>j. i < j \<and> j < n \<longrightarrow> name (tps ! j) \<noteq> name (tps ! i)) \<Longrightarrow>
     fold (\<lambda>i m. m(name (tps ! i) \<mapsto> ps ! i)) [0..<n] m (name (tps ! i)) = Some (ps ! i)"
proof (induction n)
  case 0
  then show ?case by simp
next
  case (Suc n)
  show ?case
  proof (cases "i = n")
    case True
    then show ?thesis by simp
  next
    case False
    with Suc.prems have "i < n" "name (tps ! n) \<noteq> name (tps ! i)" by auto
    with Suc show ?thesis by auto
  qed
qed

lemma init_default_parameters:
  "self_default_parameters (PaciModel_init (Some np)) = default_parameters_dict ++ np"
  by (simp add: PaciModel_init_def)

lemma apd_default_parameters:
  "self_default_parameters (fst (action_potential_diff_eq self t y))
     = self_default_parameters self"
  unfolding action_potential_diff_eq_def Let_def
  by (simp split: sum.split option.split)

lemma solve_ivp_invariant:
  assumes "\<And>s t y. P s \<Longrightarrow> P (fst (f s t y))"
  shows "P s \<Longrightarrow> P (fst (solve_ivp sv f s))"
proof (induction sv arbitrary: s)
  case (Return status)
  then show ?case by simp
next
  case (Raise e)
  then show ?case by simp
next
  case (Eval t y k)
  from assms[OF Eval.prems, of t y] have p: "P (fst (f s t y))" .
  show ?case
  proof (cases "f s t y")
    case (Pair s' r)
    with p have s': "P s'" by simp
    show ?thesis
    proof (cases r)
      case (Inl e)
      with Pair s' show ?thesis by simp
    next
      case (Inr d_y)
      with Pair Eval.IH[of "k d_y" s', OF _ s'] show ?thesis by simp
    qed
  qed
qed

lemma generate_response_default_parameters:
  "self_default_parameters (fst (generate_response ext integrator self protocol))
     = self_default_parameters self"
proof (cases protocol)
  case (SingleActionPotentialProtocol d)
  let ?s = "(reset self)\<lparr>self_current_response_info := Some (new_CurrentResponseInfo None)\<rparr>"
  have "self_default_parameters
          (fst (solve_ivp (integrator (BDF_args (0, d) y_initial_zero))
                  single_action_potential ?s)) = self_default_parameters self"
    by (rule solve_ivp_invariant[where P = "\<lambda>s. self_default_parameters s = self_default_parameters self"])
       (simp_all add: single_action_potential_def apd_default_parameters reset_def)
  then show ?thesis
    by (simp add: SingleActionPotentialProtocol generate_response_def Let_def case_prod_beta)
next
  case (IrregularPacingProtocol d offsets amplitude)
  have step: "self_default_parameters (fst (fst (irregular_pacing ext protocol s t y)))
              = self_default_parameters (fst s)" for s t y
    using apd_default_parameters[of "fst s" t y]
    by (cases s) (auto simp: irregular_pacing_def Let_def split: prod.split sum.split)
  have "self_default_parameters
          (fst (fst (solve_ivp (integrator (BDF_args (0, d) y_initial))
                  (irregular_pacing ext protocol)
                  (reset self, new_IrregularPacingInfo ext, offsets))))
        = self_default_parameters self"
    by (rule solve_ivp_invariant
          [where P = "\<lambda>s. self_default_parameters (fst s) = self_default_parameters self"])
       (simp_all add: step reset_def)
  then show ?thesis
    by (simp add: IrregularPacingProtocol generate_response_def Let_def case_prod_beta)
next
  case (VoltageClampProtocol sts)
  let ?s = "(reset self)\<lparr>self_current_response_info :=
              Some (new_CurrentResponseInfo (Some protocol))\<rparr>"
  have step: "self_default_parameters (fst (voltage_clamp ext protocol s t y))
              = self_default_parameters s" for s t y
    by (simp add: voltage_clamp_def apd_default_parameters split: sum.split)
  have "self_default_parameters
          (fst (solve_ivp (integrator (BDF_args (0, t_end) y_initial))
                  (voltage_clamp ext protocol) ?s)) = self_default_parameters self" for t_end
    by (rule solve_ivp_invariant[where P = "\<lambda>s. self_default_parameters s = self_default_parameters self"])
       (simp_all add: step reset_def)
  then show ?thesis
    by (simp add: VoltageClampProtocol generate_response_def Let_def reset_def
        case_prod_beta split: sum.split)
next
  case OtherProtocol
  then show ?thesis by (simp add: generate_response_def reset_def)
qed

lemma assign_new_params_IndexError:
  "\<exists>i\<in>set indices. \<not> i < length tps \<Longrightarrow>
     assign_new_params tps ps indices m = Inl IndexError"
  by (induction indices arbitrary: m) auto

lemma params_longer_raises:
  "tps \<noteq> [] \<Longrightarrow> length tps < length ps \<Longrightarrow>
     new_params_of (Some tps) (Some ps) = Inl IndexError"
proof -
  assume a: "tps \<noteq> []" "length tps < length ps"
  then have "ps \<noteq> []" by auto
  moreover from a have "\<exists>i\<in>set [0..<length ps]. \<not> i < length tps" by auto
  ultimately show ?thesis
    using a by (simp add: new_params_of_def assign_new_params_IndexError)
qed

text \<open>
  Claim C10, as amended. With either argument absent or empty no override is built and
  the model is constructed with the default parameter values. With both lists non-empty
  and \<open>params\<close> no longer than \<open>tunable_parameters\<close>, the value \<open>params[i]\<close> is assigned
  to the name \<open>tunable_parameters[i].name\<close> in the order of \<open>i\<close>: the model holds
  \<open>params[i]\<close> under that name for each \<open>i\<close> whose name is not assigned again later,
  and every name that is not a name of \<open>tunable_parameters\<close> keeps its default; the
  model so built is the one that runs, and the run does not change its parameters. With
  both lists non-empty and \<open>params\<close> the longer one, \<open>tunable_parameters[i]\<close> raises
  IndexError, which leaves \<open>generate_trace\<close>: no model is built or run.
\<close>

theorem generate_trace_parameter_overrides:
  "new_params_of None pso = Inr Map.empty
   \<and> new_params_of tpo None = Inr Map.empty
   \<and> new_params_of (Some []) pso = Inr Map.empty
   \<and> new_params_of tpo (Some []) = Inr Map.empty
   \<and> self_default_parameters (PaciModel_init (Some Map.empty)) = default_parameters_dict
   \<and> (ps \<noteq> [] \<and> tps \<noteq> [] \<and> length ps \<le> length tps \<longrightarrow>
        (\<exists>np. new_params_of (Some tps) (Some ps) = Inr np
           \<and> (\<forall>i. i < length ps
                  \<and> (\<forall>j. i < j \<and> j < length ps \<longrightarrow> name (tps ! j) \<noteq> name (tps ! i)) \<longrightarrow>
                  self_default_parameters (PaciModel_init (Some np)) (name (tps ! i))
                    = Some (ps ! i))
           \<and> (\<forall>n. n \<notin> name ` set tps \<longrightarrow>
                  self_default_parameters (PaciModel_init (Some np)) n
                    = default_parameters_dict n)))
   \<and> (new_params_of tpo pso = Inr np' \<longrightarrow>
        generate_trace ext integrator protocol tpo pso
          = snd (generate_response ext integrator (PaciModel_init (Some np')) protocol)
        \<and> self_default_parameters
             (fst (generate_response ext integrator (PaciModel_init (Some np')) protocol))
           = self_default_parameters (PaciModel_init (Some np')))
   \<and> (tps \<noteq> [] \<and> length tps < length ps \<longrightarrow>
        new_params_of (Some tps) (Some ps) = Inl IndexError
        \<and> generate_trace ext integrator protocol (Some tps) (Some ps) = Inl IndexError)"
proof (intro conjI impI)
  show "new_params_of None pso = Inr Map.empty"
    by (simp add: new_params_of_def split: option.split)
  show "new_params_of tpo None = Inr Map.empty"
    by (simp add: new_params_of_def)
  show "new_params_of (Some []) pso = Inr Map.empty"
    by (simp add: new_params_of_def split: option.split)
  show "new_params_of tpo (Some []) = Inr Map.empty"
    by (simp add: new_params_of_def split: option.split)
  show "self_default_parameters (PaciModel_init (Some Map.empty)) = default_parameters_dict"
    by (simp add: PaciModel_init_def)
next
  assume a: "ps \<noteq> [] \<and> tps \<noteq> [] \<and> length ps \<le> length tps"
  let ?np = "fold (\<lambda>i m. m(name (tps ! i) \<mapsto> ps ! i)) [0..<length ps] Map.empty"
  have 1: "new_params_of (Some tps) (Some ps) = Inr ?np"
    using a by (simp add: new_params_of_def assign_new_params_fold)
  have 2: "self_default_parameters (PaciModel_init (Some ?np)) (name (tps ! i)) = Some (ps ! i)"
    if "i < length ps \<and> (\<forall>j. i < j \<and> j < length ps \<longrightarrow> name (tps ! j) \<noteq> name (tps ! i))"
    for i
    using that by (simp add: init_default_parameters map_add_def fold_assign_last)
  have 3: "self_default_parameters (PaciModel_init (Some ?np)) n = default_parameters_dict n"
    if "n \<notin> name ` set tps" for n
    using that a by (simp add: init_default_parameters map_add_def fold_assign_other)
  from 1 2 3
  show "\<exists>np. new_params_of (Some tps) (Some ps) = Inr np
           \<and> (\<forall>i. i < length ps
                  \<and> (\<forall>j. i < j \<and> j < length ps \<longrightarrow> name (tps ! j) \<noteq> name (tps ! i)) \<longrightarrow>
                  self_default_parameters (PaciModel_init (Some np)) (name (tps ! i))
                    = Some (ps ! i))
           \<and> (\<forall>n. n \<notin> name ` set tps \<longrightarrow>
                  self_default_parameters (PaciModel_init (Some np)) n
                    = default_parameters_dict n)"
    by blast
next
  assume "new_params_of tpo pso = Inr np'"
  then show "generate_trace ext integrator protocol tpo pso
          = snd (generate_response ext integrator (PaciModel_init (Some np')) protocol)"
    by (simp add: generate_trace_def)
next
  show "self_default_parameters
             (fst (generate_response ext integrator (PaciModel_init (Some np')) protocol))
           = self_default_parameters (PaciModel_init (Some np'))"
    by (rule generate_response_default_parameters)
next
  assume a: "tps \<noteq> [] \<and> length tps < length ps"
  then show e: "new_params_of (Some tps) (Some ps) = Inl IndexError"
    by (simp add: params_longer_raises)
  then show "generate_trace ext integrator protocol (Some tps) (Some ps) = Inl IndexError"
    by (simp add: generate_trace_def)
qed

theorem generate_trace_parameter_overrides_witness:
  "[2569.84, 21.07 :: real] \<noteq> []
   \<and> [Parameter ''g_na'' 3671.2302, Parameter ''g_f_s'' 30.10312] \<noteq> []
   \<and> length [2569.84, 21.07 :: real]
       \<le> length [Parameter ''g_na'' 3671.2302, Parameter ''g_f_s'' 30.10312]
   \<and> (\<exists>np. new_params_of (Some [Parameter ''g_na'' 3671.2302, Parameter ''g_f_s'' 30.10312])
               (Some [2569.84, 21.07]) = Inr np
         \<and> self_default_parameters (PaciModel_init (Some np)) ''g_na'' = Some 2569.84
         \<and> self_default_parameters (PaciModel_init (Some np)) ''g_f_s'' = Some 21.07
         \<and> self_default_parameters (PaciModel_init (Some np)) ''g_ks_s'' = Some 2.041)
   \<and> new_params_of None None = Inr Map.empty
   \<and> generate_trace (constant_externals 0 False False False) (returns_status 0)
        (SingleActionPotentialProtocol 0.4) None None
       = snd (generate_response (constant_externals 0 False False False) (returns_status 0)
                (PaciModel_init (Some Map.empty)) (SingleActionPotentialProtocol 0.4))
   \<and> [Parameter ''g_na'' 3671.2302] \<noteq> []
   \<and> length [Parameter ''g_na'' 3671.2302] < length [2569.84, 21.07 :: real]
   \<and> generate_trace (constant_externals 0 False False False) (returns_status 0)
        (SingleActionPotentialProtocol 0.4) (Some [Parameter ''g_na'' 3671.2302])
        (Some [2569.84, 21.07]) = Inl IndexError"
proof -
  let ?tps = "[Parameter ''g_na'' 3671.2302, Parameter ''g_f_s'' 30.10312]"
  let ?ps = "[2569.84, 21.07 :: real]"
  let ?ext = "constant_externals 0 False False False"
  note th = generate_trace_parameter_overrides
    [of None None ?ps ?tps Map.empty ?ext "returns_status 0" "SingleActionPotentialProtocol 0.4"]
  have h: "?ps \<noteq> [] \<and> ?tps \<noteq> [] \<and> length ?ps \<le> length ?tps" by simp
  have e: "new_params_of None None = Inr Map.empty" using th by blast
  from th h obtain np where
    np: "new_params_of (Some ?tps) (Some ?ps) = Inr np"
    and assigned: "\<And>i. i < length ?ps
        \<and> (\<forall>j. i < j \<and> j < length ?ps \<longrightarrow> name (?tps ! j) \<noteq> name (?tps ! i)) \<Longrightarrow>
        self_default_parameters (PaciModel_init (Some np)) (name (?tps ! i)) = Some (?ps ! i)"
    and kept: "\<And>n. n \<notin> name ` set ?tps \<Longrightarrow>
        self_default_parameters (PaciModel_init (Some np)) n = default_parameters_dict n"
    by blast
  have j1: "j = 1" if "0 < j \<and> j < length ?ps" for j :: nat using that by simp
  have a0: "self_default_parameters (PaciModel_init (Some np)) ''g_na'' = Some 2569.84"
    using assigned[of 0] by (auto dest: j1)
  have a1: "self_default_parameters (PaciModel_init (Some np)) ''g_f_s'' = Some 21.07"
    using assigned[of 1] by simp
  have k: "self_default_parameters (PaciModel_init (Some np)) ''g_ks_s'' = Some 2.041"
    using kept[of "''g_ks_s''"] by (simp add: default_parameters_dict_def)
  from th e have g: "generate_trace ?ext (returns_status 0)
        (SingleActionPotentialProtocol 0.4) None None
       = snd (generate_response ?ext (returns_status 0)
                (PaciModel_init (Some Map.empty)) (SingleActionPotentialProtocol 0.4))"
    by blast
  from np a0 a1 k have ex: "\<exists>np. new_params_of (Some ?tps) (Some ?ps) = Inr np
         \<and> self_default_parameters (PaciModel_init (Some np)) ''g_na'' = Some 2569.84
         \<and> self_default_parameters (PaciModel_init (Some np)) ''g_f_s'' = Some 21.07
         \<and> self_default_parameters (PaciModel_init (Some np)) ''g_ks_s'' = Some 2.041"
    by blast
  have l: "[Parameter ''g_na'' 3671.2302] \<noteq> []
           \<and> length [Parameter ''g_na'' 3671.2302] < length ?ps"
    by simp
  with generate_trace_parameter_overrides
    [of None None ?ps "[Parameter ''g_na'' 3671.2302]" Map.empty ?ext "returns_status 0"
        "SingleActionPotentialProtocol 0.4"]
  have x: "generate_trace ?ext (returns_status 0) (SingleActionPotentialProtocol 0.4)
        (Some [Parameter ''g_na'' 3671.2302]) (Some ?ps) = Inl IndexError"
    by blast
  from h ex e g l x show ?thesis by blast
qed

text \<open>
  The claim as stated fails with both lists non-empty when \<open>params\<close> is the longer one:
  for one tunable parameter and two values the call raises IndexError at
  \<open>tunable_parameters[1]\<close> and no model runs. It fails for the final value when a name
  occurs twice: for two tunable parameters named \<open>g_na\<close> and the values 1 and 2 the
  model holds 2 under \<open>g_na\<close>, not \<open>params[0]\<close>.
\<close>

theorem mismatched_parameter_lists_counterexample:
  "generate_trace (constant_externals 0 False False False) (returns_status 0)
     (SingleActionPotentialProtocol 0.4) (Some [Parameter ''g_na'' 3671.2302])
     (Some [1, 2]) = Inl IndexError
   \<and> new_params_of (Some [Parameter ''g_na'' 3671.2302, Parameter ''g_na'' 3671.2302])
        (Some [1, 2]) = Inr [''g_na'' \<mapsto> 2]
   \<and> self_default_parameters (PaciModel_init (Some [''g_na'' \<mapsto> 2])) ''g_na'' = Some 2
   \<and> [1, 2 :: real] ! 0 \<noteq> 2"
  by (simp add: generate_trace_def new_params_of_def PaciModel_init_def upt_rec)

end
